theory Spec2Isabelle
  imports Complex_Main "HOL-Library.Char_ord"
begin

section \<open>Text and characters\<close>

text \<open>
  The matching core works on Python \<open>str\<close> values. The model covers ASCII text: a
  character is a \<open>char\<close>, and the character classes below are the ASCII ones
  (for a character above 0x7F they are false, and \<open>upper\<close> leaves it alone).
\<close>

definition is_digit :: "char \<Rightarrow> bool" where
  "is_digit c \<longleftrightarrow> CHR ''0'' \<le> c \<and> c \<le> CHR ''9''"

definition is_upper :: "char \<Rightarrow> bool" where
  "is_upper c \<longleftrightarrow> CHR ''A'' \<le> c \<and> c \<le> CHR ''Z''"

definition is_lower :: "char \<Rightarrow> bool" where
  "is_lower c \<longleftrightarrow> CHR ''a'' \<le> c \<and> c \<le> CHR ''z''"

definition is_word :: "char \<Rightarrow> bool" where
  \<comment> \<open>the class \<open>\w\<close>: letters, digits and the underscore\<close>
  "is_word c \<longleftrightarrow> is_upper c \<or> is_lower c \<or> is_digit c \<or> c = CHR ''_''"

definition is_space :: "char \<Rightarrow> bool" where
  \<comment> \<open>the class \<open>\s\<close>: tab, newline, vertical tab, form feed, carriage return,
      the four separators 0x1C..0x1F and the blank\<close>
  "is_space c \<longleftrightarrow> (CHR 0x09 \<le> c \<and> c \<le> CHR 0x0D) \<or> (CHR 0x1C \<le> c \<and> c \<le> CHR 0x1F)
     \<or> c = CHR '' ''"

definition upper_char :: "char \<Rightarrow> char" where
  "upper_char c =
     (if is_lower c then
        (case map_of (zip ''abcdefghijklmnopqrstuvwxyz'' ''ABCDEFGHIJKLMNOPQRSTUVWXYZ'') c of
           Some u \<Rightarrow> u | None \<Rightarrow> c)
      else c)"

definition upper :: "string \<Rightarrow> string" where
  \<comment> \<open>\<open>str.upper()\<close>\<close>
  "upper s = map upper_char s"

section \<open>The fragment of Python's \<open>re\<close> that the bucket patterns use\<close>

datatype cclass = CChar char | CDigit | CSpace

datatype regex =
    Atom cclass
  | Bnd
  | Opt cclass
  | Star cclass
  | Plus cclass
  | Seq "regex list"
  | Alt "regex list"
  | Group nat regex

text \<open>
  \<open>Atom\<close> matches one character, \<open>Bnd\<close> is \<open>\b\<close>, \<open>Opt\<close>, \<open>Star\<close> and \<open>Plus\<close> are the
  greedy \<open>?\<close>, \<open>*\<close> and \<open>+\<close> on a one-character item (the patterns quantify nothing
  else), \<open>Group n\<close> is the \<open>n\<close>-th capturing parenthesis.
\<close>

subsection \<open>Reading a pattern\<close>

datatype token = TAtom cclass | TBnd | TOpen | TClose | TBar | TOpt | TStar | TPlus

definition backslash :: char where
  "backslash = CHR 0x5C"

definition raw :: "string \<Rightarrow> string" where
  \<comment> \<open>A backslash cannot be written inside a string literal here: the pattern table
      writes \<open>~\<close> for it, and \<open>raw\<close> gives the Python raw string back.\<close>
  "raw s = map (\<lambda>c. if c = CHR ''~'' then backslash else c) s"

definition escape_token :: "char \<Rightarrow> token option" where
  "escape_token d =
     (if d = CHR ''b'' then Some TBnd
      else if d = CHR ''s'' then Some (TAtom CSpace)
      else if d = CHR ''d'' then Some (TAtom CDigit)
      else if is_word d then None
      else Some (TAtom (CChar d)))"

definition plain_token :: "char \<Rightarrow> token option" where
  "plain_token c =
     (if c = CHR ''('' then Some TOpen
      else if c = CHR '')'' then Some TClose
      else if c = CHR ''|'' then Some TBar
      else if c = CHR ''?'' then Some TOpt
      else if c = CHR ''*'' then Some TStar
      else if c = CHR ''+'' then Some TPlus
      else if c \<in> set ''.[]{}^$'' then None
      else Some (TAtom (CChar c)))"

fun tokenize :: "string \<Rightarrow> token list option" where
  "tokenize [] = Some []"
| "tokenize (c # cs) =
     (if c = backslash then
        (case cs of
           [] \<Rightarrow> None
         | d # ds \<Rightarrow>
             (case escape_token d of
                None \<Rightarrow> None
              | Some t \<Rightarrow> map_option (Cons t) (tokenize ds)))
      else
        (case plain_token c of
           None \<Rightarrow> None
         | Some t \<Rightarrow> map_option (Cons t) (tokenize cs)))"

type_synonym frame = "regex list list \<times> regex list"

definition close_frame :: "frame \<Rightarrow> regex" where
  \<comment> \<open>the alternatives of one parenthesis level, in the order written\<close>
  "close_frame f =
     (case rev (rev (snd f) # fst f) of
        [single] \<Rightarrow> Seq single
      | many \<Rightarrow> Alt (map Seq many))"

fun build :: "token list \<Rightarrow> nat \<Rightarrow> (nat \<times> frame) list \<Rightarrow> frame \<Rightarrow> regex option" where
  "build [] n [] fr = Some (close_frame fr)"
| "build [] n (f # fs) fr = None"
| "build (TAtom a # ts) n st (alts, cur) = build ts n st (alts, Atom a # cur)"
| "build (TBnd # ts) n st (alts, cur) = build ts n st (alts, Bnd # cur)"
| "build (TOpt # ts) n st (alts, Atom a # cur) = build ts n st (alts, Opt a # cur)"
| "build (TOpt # ts) n st fr = None"
| "build (TStar # ts) n st (alts, Atom a # cur) = build ts n st (alts, Star a # cur)"
| "build (TStar # ts) n st fr = None"
| "build (TPlus # ts) n st (alts, Atom a # cur) = build ts n st (alts, Plus a # cur)"
| "build (TPlus # ts) n st fr = None"
| "build (TOpen # ts) n st fr = build ts (Suc n) ((n, fr) # st) ([], [])"
| "build (TBar # ts) n st (alts, cur) = build ts n st (rev cur # alts, [])"
| "build (TClose # ts) n [] fr = None"
| "build (TClose # ts) n ((g, (alts, cur)) # st) fr =
     build ts n st (alts, Group g (close_frame fr) # cur)"

definition re_compile :: "string \<Rightarrow> regex option" where
  \<comment> \<open>\<open>None\<close>: the pattern is outside the fragment (or is not a pattern)\<close>
  "re_compile p =
     (case tokenize p of None \<Rightarrow> None | Some ts \<Rightarrow> build ts 1 [] ([], []))"

subsection \<open>Matching\<close>

text \<open>
  A matcher state is the text before the position (latest character first), the text
  from the position on, and the groups captured so far (latest first). \<open>ms r s\<close> lists
  the states in which a match of \<open>r\<close> begun in \<open>s\<close> can end, in the order in which the
  backtracking matcher tries them: the first alternative first, the longest repetition
  first.
\<close>

type_synonym mstate = "string \<times> string \<times> (nat \<times> string) list"

fun cmatch :: "cclass \<Rightarrow> char \<Rightarrow> bool" where
  "cmatch (CChar c) x = (upper_char x = upper_char c)"
| "cmatch CDigit x = is_digit x"
| "cmatch CSpace x = is_space x"

definition at_boundary :: "string \<Rightarrow> string \<Rightarrow> bool" where
  "at_boundary bef rest \<longleftrightarrow>
     (case bef of [] \<Rightarrow> False | b # _ \<Rightarrow> is_word b)
       \<noteq> (case rest of [] \<Rightarrow> False | x # _ \<Rightarrow> is_word x)"

definition advance :: "mstate \<Rightarrow> nat \<Rightarrow> mstate" where
  "advance s k =
     (case s of (bef, rest, caps) \<Rightarrow> (rev (take k rest) @ bef, drop k rest, caps))"

definition consumed :: "string \<Rightarrow> string \<Rightarrow> string" where
  \<comment> \<open>the text between the position with \<open>bef\<close> before it and the later one with \<open>bef'\<close>\<close>
  "consumed bef bef' = rev (take (length bef' - length bef) bef')"

fun ms :: "regex \<Rightarrow> mstate \<Rightarrow> mstate list" where
  "ms (Atom a) (bef, rest, caps) =
     (case rest of
        [] \<Rightarrow> []
      | x # xs \<Rightarrow> if cmatch a x then [(x # bef, xs, caps)] else [])"
| "ms Bnd (bef, rest, caps) = (if at_boundary bef rest then [(bef, rest, caps)] else [])"
| "ms (Opt a) (bef, rest, caps) =
     (case rest of
        [] \<Rightarrow> [(bef, rest, caps)]
      | x # xs \<Rightarrow>
          if cmatch a x then [(x # bef, xs, caps), (bef, rest, caps)] else [(bef, rest, caps)])"
| "ms (Star a) (bef, rest, caps) =
     map (advance (bef, rest, caps)) (rev [0 ..< Suc (length (takeWhile (cmatch a) rest))])"
| "ms (Plus a) (bef, rest, caps) =
     map (advance (bef, rest, caps)) (rev [1 ..< Suc (length (takeWhile (cmatch a) rest))])"
| "ms (Seq []) s = [s]"
| "ms (Seq (r # rs)) s = concat (map (ms (Seq rs)) (ms r s))"
| "ms (Alt rs) s = concat (map (\<lambda>r. ms r s) rs)"
| "ms (Group g r) (bef, rest, caps) =
     map (\<lambda>(bef', rest', caps'). (bef', rest', (g, consumed bef bef') # caps'))
       (ms r (bef, rest, caps))"

definition match_at :: "regex \<Rightarrow> string \<Rightarrow> string \<Rightarrow> (string \<times> (nat \<times> string) list) list" where
  \<comment> \<open>the matches that begin at this position: matched text and groups\<close>
  "match_at r bef rest =
     map (\<lambda>(bef', rest', caps). (consumed bef bef', caps)) (ms r (bef, rest, []))"

text \<open>
  The scan of \<open>findall\<close>: the leftmost match, then on from its end. After an empty match
  the next one at the same position must be non-empty. \<open>skip\<close> counts the characters of
  the last match still to pass.
\<close>

fun scan :: "regex \<Rightarrow> string \<Rightarrow> string \<Rightarrow> nat \<Rightarrow> (string \<times> (nat \<times> string) list) list" where
  "scan r bef [] 0 = (case match_at r bef [] of [] \<Rightarrow> [] | m # _ \<Rightarrow> [m])"
| "scan r bef [] (Suc k) = []"
| "scan r bef (c # cs) (Suc k) = scan r (c # bef) cs k"
| "scan r bef (c # cs) 0 =
     (case match_at r bef (c # cs) of
        [] \<Rightarrow> scan r (c # bef) cs 0
      | m # more \<Rightarrow>
          if fst m \<noteq> [] then m # scan r (c # bef) cs (length (fst m) - 1)
          else
            (case filter (\<lambda>m'. fst m' \<noteq> []) more of
               [] \<Rightarrow> m # scan r (c # bef) cs 0
             | m' # _ \<Rightarrow> m # m' # scan r (c # bef) cs (length (fst m') - 1)))"

fun ngroups :: "regex \<Rightarrow> nat" where
  "ngroups (Seq rs) = sum_list (map ngroups rs)"
| "ngroups (Alt rs) = sum_list (map ngroups rs)"
| "ngroups (Group g r) = Suc (ngroups r)"
| "ngroups r = 0"

definition group_val :: "(nat \<times> string) list \<Rightarrow> nat \<Rightarrow> string" where
  \<comment> \<open>a group that took no part in the match reads as the empty string\<close>
  "group_val caps g = (case map_of caps g of None \<Rightarrow> [] | Some v \<Rightarrow> v)"

datatype found = Strs "string list" | Tuples "string list list"

definition findall :: "regex \<Rightarrow> string \<Rightarrow> found" where
  \<comment> \<open>\<open>re.findall\<close>: whole matches for a pattern without group, the group for a pattern
      with one, tuples of all groups otherwise\<close>
  "findall r text =
     (let found_matches = scan r [] text 0; n = ngroups r in
      if n = 0 then Strs (map fst found_matches)
      else if n = 1 then Strs (map (\<lambda>m. group_val (snd m) 1) found_matches)
      else Tuples (map (\<lambda>m. map (group_val (snd m)) [1 ..< Suc n]) found_matches))"


section \<open>The bucket definitions\<close>

datatype priority = High | Medium | Low

record bucket_def =
  name :: string
  priority :: priority
  patterns :: "string list"

text \<open>The patterns, as in \<open>BucketFilters.__init__\<close>, with \<open>~\<close> for the backslash.\<close>

definition bucket_1_patterns :: "string list" where
  \<open>bucket_1_patterns =
     [raw ''~b(150|300|600|900|1500|2500|5000|3000|6000|9000)#?~b'',
      raw ''~b(150|300|600|900|1500|2500|5000|3000|6000|9000)~s*LB~b'',
      raw ''~bCLASS~s*(150|300|600|900|1500|2500|5000|3000|6000|9000)~b'']\<close>

definition bucket_2_patterns :: "string list" where
  \<open>bucket_2_patterns =
     [raw (''~b(PIPE|ELBOW|CAP|FLANGE|FLG|TEE|REDUCER|REDG|RED|BEND|SWAGE|COUPLING|''
        @ ''CLPG|BOSS|UNION|NIPPLE|PLUG|CROSS|INSERT|PIPET|WELDOLET|SOCKOLET|''
        @ ''ELBOLET|THREADOLET)~b'')]\<close>

definition bucket_3_patterns :: "string list" where
  \<open>bucket_3_patterns =
     [raw (''~b(RF|RAISED~s*FACE|FF|FLAT~s*FACE|WN|WNRF|WN~s*RF|WNFF|WN~s*FF|''
        @ ''WELDNECK|WELD~s*NECK|BLIND|BL|BLRF|BL~s*RF|BLFF|BF~s*FF|SO|SORF|''
        @ ''SO~s*RF|SOFF|SO~s*FF|SLIP~s*ON|SLIPON|SLIP-ON|LJ|LJRF|LJ~s*RF|LJFF|''
        @ ''LJ~s*FF|LAP~s*JOINT|LAPJOINT|LAP-JOINT)~b'')]\<close>

definition bucket_4_patterns :: "string list" where
  \<open>bucket_4_patterns =
     [raw (''~b(NPT|THREADED|TH|SCRD|SCREWED|SW|SOCKET~s*WELD|SOCKETWELD|BW|''
        @ ''BUTTWELD|SMLS|SEAMLESS|WELDED|WE)~b'')]\<close>

definition bucket_5_patterns :: "string list" where
  \<open>bucket_5_patterns =
     [raw (''~b(LR|LONG~s*RADIUS|SR|SHORT~s*RADIUS|90LR|90SR|90|90DEG|90D|90~s*DEG|''
        @ ''90~s*DEGREE|45LR|45SR|45|45DEG|45D|45~s*DEG|45~s*DEGREE|180LR|180SR|''
        @ ''180|180DEG|180D|180~s*DEG|180~s*DEGREE)~b'')]\<close>

definition bucket_6_patterns :: "string list" where
  \<open>bucket_6_patterns =
     [raw (''~b(EQ|EQUAL|ECC|ECCENTRIC|CON|CONC|CONCENTRIC|RED|REDUCING|REDG|FULL|''
        @ ''HALF|HEX|BULL|ROUND)~b'')]\<close>

definition bucket_7_patterns :: "string list" where
  \<open>bucket_7_patterns =
     [raw (''~b(CS|CARBON~s*STEEL|CARBONSTEEL|SS|STAINLESS~s*STEEL|STAINLESSSTEEL|''
        @ ''X52|X42|A53|SA/A106-B|A106-B|A106B|A106GRB|A106~s*GRB|SA/A333~s*GR~.6|''
        @ ''A333GR6|A333~s*GR6|304|SS304|SS304/L|SS304L|316|SS316|SS316/L|SS316L|''
        @ ''TP304/L|TP304|TP304L|TP316|TP316/L|TP316L|SA/A234~s*WPB|234WPB|A234WPB''
        @ ''|A234|234|SA/A105N|A105|A105N|105|F304/304L|304/304L|F304/L|F304L|304L''
        @ ''|F316/316L|316/316L|F316/L|F316L|316L|304/L|316/L|WP304/L|WP304/304L|''
        @ ''F304/L|F304L|WP316/L|WP316/316L|F316/L|F316L)~b'')]\<close>

definition bucket_8_patterns :: "string list" where
  \<open>bucket_8_patterns =
     [raw (''~b(S10|S20|S30|S40|S60|S80|S100|S120|S140|S160|SSTD|SXS|SXXS|SCH~s*10|''
        @ ''SCH~s*20|SCH~s*30|SCH~s*40|SCH~s*60|SCH~s*80|SCH~s*100|SCH~s*120|''
        @ ''SCH~s*140|SCH~s*160|SCH~s*STD|SCH~s*XS|SCH~s*XXS|SCH10|SCH20|SCH30|''
        @ ''SCH40|SCH60|SCH80|SCH100|SCH120|SCH140|SCH160|SCHSTD|SCHXS|SCHXXS|STD|''
        @ ''XS|XXS)~b''),
      raw ''~b~d+~.?~d*~s*MM~b'',
      raw ''~b~d+~.?~d*~s*INCH~b'']\<close>

definition bucket_9_patterns :: "string list" where
  \<open>bucket_9_patterns =
     [raw (''~b(1/8|1/4|1/2|3/4|1|1~.1/4|1~.1/2|2|2~.1/2|3|3~.1/2|4|5|6|7|8|10|12|''
        @ ''14|16|18|20|22|24|26|28|30|32|34|36|38|40|42|44)"~b''),
      raw ''~bDN~s*(~d+)~b'',
      raw ''~bNB~s*(~d+~.?~d*)~b'']\<close>

definition bucket_10_patterns :: "string list" where
  \<open>bucket_10_patterns =
     [raw (''X~s*(1/8|1/4|1/2|3/4|1|1~.1/4|1~.1/2|2|2~.1/2|3|3~.1/2|4|5|6|7|8|10|12''
        @ ''|14|16|18|20|22|24|26|28|30|32|34|36|38|40|42|44)"~b''),
      raw (''TO~s*(1/8|1/4|1/2|3/4|1|1~.1/4|1~.1/2|2|2~.1/2|3|3~.1/2|4|5|6|7|8|10|''
        @ ''12|14|16|18|20|22|24|26|28|30|32|34|36|38|40|42|44)"~b'')]\<close>

definition bucket_11_patterns :: "string list" where
  \<open>bucket_11_patterns =
     [raw ''~b(API|PSL1|PSL2|PSL3|TYPE~s*A|TYPE~s*B|TYPE~s*C)~b'']\<close>

definition bucket_definitions :: "(nat \<times> bucket_def) list" where
  \<comment> \<open>the dictionary, in the order of its keys (the order in which it is iterated)\<close>
  "bucket_definitions =
     [(1, \<lparr>name = ''Class Rating'', priority = High, patterns = bucket_1_patterns\<rparr>),
      (2, \<lparr>name = ''Item Group'', priority = High, patterns = bucket_2_patterns\<rparr>),
      (3, \<lparr>name = ''Flange Type/Facing'', priority = High, patterns = bucket_3_patterns\<rparr>),
      (4, \<lparr>name = ''Item Ends/Finish'', priority = High, patterns = bucket_4_patterns\<rparr>),
      (5, \<lparr>name = ''Elbow Type'', priority = High, patterns = bucket_5_patterns\<rparr>),
      (6, \<lparr>name = ''Item Type'', priority = High, patterns = bucket_6_patterns\<rparr>),
      (7, \<lparr>name = ''Material'', priority = Medium, patterns = bucket_7_patterns\<rparr>),
      (8, \<lparr>name = ''Thickness'', priority = Medium, patterns = bucket_8_patterns\<rparr>),
      (9, \<lparr>name = ''Size 1'', priority = Low, patterns = bucket_9_patterns\<rparr>),
      (10, \<lparr>name = ''Size 2'', priority = Low, patterns = bucket_10_patterns\<rparr>),
      (11, \<lparr>name = ''Misc'', priority = Low, patterns = bucket_11_patterns\<rparr>)]"

section \<open>Feature extraction\<close>

type_synonym features = "nat \<rightharpoonup> string list"

definition pattern_matches :: "string \<Rightarrow> string \<Rightarrow> string list" where
  \<comment> \<open>What one pattern adds to \<open>matches\<close>: the strings found, or for a pattern with
      several groups the non-empty members of the tuples. Every pattern of the table
      compiles (\<open>patterns_compile\<close> below), so the \<open>None\<close> branch is not taken.\<close>
  "pattern_matches pattern text_upper =
     (case re_compile pattern of
        None \<Rightarrow> []
      | Some r \<Rightarrow>
          (case findall r text_upper of
             Strs found_matches \<Rightarrow> found_matches
           | Tuples found_matches \<Rightarrow> concat (map (filter (\<lambda>m. m \<noteq> [])) found_matches)))"

definition bucket_matches :: "bucket_def \<Rightarrow> string \<Rightarrow> string list" where
  "bucket_matches bucket_def text_upper =
     concat (map (\<lambda>pattern. pattern_matches pattern text_upper) (patterns bucket_def))"

fun extract_loop :: "(nat \<times> bucket_def) list \<Rightarrow> string \<Rightarrow> features \<Rightarrow> features" where
  "extract_loop [] text_upper features = features"
| "extract_loop ((bucket_num, bucket_def) # defs) text_upper features =
     (let matches = bucket_matches bucket_def text_upper in
      extract_loop defs text_upper
        (if matches \<noteq> [] then features(bucket_num \<mapsto> remdups matches) else features))"

definition extract_bucket_features :: "string \<Rightarrow> features" where
  \<comment> \<open>\<open>list(set(matches))\<close> is \<open>remdups matches\<close>: Python leaves the order of the
      list open, and the code reads it as a set only.\<close>
  "extract_bucket_features text = extract_loop bucket_definitions (upper text) Map.empty"


section \<open>Scoring and filtering the catalog\<close>

text \<open>
  Python's floats are idealised as exact rationals throughout: the score is the
  rational that the float operations of the source approximate.
\<close>

definition bucket_weights :: "priority \<Rightarrow> rat" where
  "bucket_weights p = (case p of High \<Rightarrow> 10 | Medium \<Rightarrow> 5 | Low \<Rightarrow> 2)"

definition bucket_weight :: "nat \<Rightarrow> rat" where
  \<comment> \<open>\<open>bucket_weights[self.bucket_definitions[bucket_num]['priority']]\<close>; every number of
      \<open>range(1, 12)\<close> is a key of the table (\<open>bucket_weight_range\<close> below), so the
      \<open>None\<close> branch is not taken.\<close>
  "bucket_weight bucket_num =
     (case map_of bucket_definitions bucket_num of
        Some bucket_def \<Rightarrow> bucket_weights (priority bucket_def)
      | None \<Rightarrow> 0)"

definition score_step :: "features \<Rightarrow> features \<Rightarrow> nat \<Rightarrow> rat \<Rightarrow> rat" where
  \<comment> \<open>one round of the loop of \<open>_calculate_match_score\<close>\<close>
  "score_step rfp_features stock_features bucket_num total_score =
     (case (rfp_features bucket_num, stock_features bucket_num) of
        (Some rf, Some sf) \<Rightarrow>
          (let weight = bucket_weight bucket_num;
               rfp_set = set rf;
               stock_set = set sf;
               overlap = card (rfp_set \<inter> stock_set)
           in if overlap > 0
              then total_score
                + weight * (of_nat overlap / of_nat (max (card rfp_set) (card stock_set)))
              else total_score)
      | _ \<Rightarrow> total_score)"

fun score_loop :: "nat list \<Rightarrow> features \<Rightarrow> features \<Rightarrow> rat \<Rightarrow> rat" where
  "score_loop [] rfp_features stock_features total_score = total_score"
| "score_loop (bucket_num # rest) rfp_features stock_features total_score =
     score_loop rest rfp_features stock_features
       (score_step rfp_features stock_features bucket_num total_score)"

definition calculate_match_score :: "features \<Rightarrow> features \<Rightarrow> rat" where
  "calculate_match_score rfp_features stock_features =
     score_loop [1 ..< 12] rfp_features stock_features 0"

record matched_bucket =
  bucket_number :: nat
  bucket_name :: string
  bucket_priority :: priority
  matched_features :: "string list"
  rfp_features_of :: "string list"
  stock_features_of :: "string list"

definition matched_bucket_of :: "features \<Rightarrow> features \<Rightarrow> nat \<Rightarrow> matched_bucket list" where
  \<comment> \<open>what one round of the loop of \<open>_get_matched_buckets\<close> appends\<close>
  "matched_bucket_of rfp_features stock_features bucket_num =
     (case (rfp_features bucket_num, stock_features bucket_num,
            map_of bucket_definitions bucket_num) of
        (Some rf, Some sf, Some bucket_def) \<Rightarrow>
          (let overlap = filter (\<lambda>f. f \<in> set sf) (remdups rf)
           in if overlap \<noteq> []
              then [\<lparr>bucket_number = bucket_num, bucket_name = name bucket_def,
                     bucket_priority = priority bucket_def, matched_features = overlap,
                     rfp_features_of = remdups rf, stock_features_of = remdups sf\<rparr>]
              else [])
      | _ \<Rightarrow> [])"

definition get_matched_buckets :: "features \<Rightarrow> features \<Rightarrow> matched_bucket list" where
  "get_matched_buckets rfp_features stock_features =
     concat (map (matched_bucket_of rfp_features stock_features) [1 ..< 12])"

datatype pyval = PNone | PNum rat | PStr string

text \<open>
  A catalog entry is a dictionary; the model keeps the keys that the core reads. A text
  field is a string or is absent (\<open>None\<close>); the quantity is any value or is absent.
\<close>

record stock_item =
  product_code :: "string option"
  description :: "string option"
  material :: "string option"
  size_field :: "string option"
  specification_field :: "string option"
  on_hand_quantity :: "pyval option"

record scored_item = stock_item +
  match_score :: rat
  matched_buckets :: "matched_bucket list"

definition get_str :: "string option \<Rightarrow> string" where
  \<comment> \<open>\<open>str(d.get(key, ''))\<close> for a text field\<close>
  "get_str v = (case v of None \<Rightarrow> [] | Some s \<Rightarrow> s)"

fun py_join :: "string \<Rightarrow> string list \<Rightarrow> string" where
  "py_join sep [] = []"
| "py_join sep [x] = x"
| "py_join sep (x # y # ys) = x @ sep @ py_join sep (y # ys)"

definition stock_text :: "'a stock_item_scheme \<Rightarrow> string" where
  "stock_text stock_item =
     py_join '' ''
       [get_str (product_code stock_item), get_str (description stock_item),
        get_str (material stock_item), get_str (size_field stock_item),
        get_str (specification_field stock_item)]"

definition add_score :: "stock_item \<Rightarrow> rat \<Rightarrow> matched_bucket list \<Rightarrow> scored_item" where
  \<comment> \<open>\<open>{**stock_item, 'match_score': score, 'matched_buckets': ...}\<close>\<close>
  "add_score stock_item score buckets =
     stock_item.extend stock_item (scored_item.fields score buckets)"

fun filter_loop :: "features \<Rightarrow> stock_item list \<Rightarrow> scored_item list \<Rightarrow> scored_item list" where
  "filter_loop rfp_features [] scored_items = scored_items"
| "filter_loop rfp_features (stock_item # rest) scored_items =
     (let stock_features = extract_bucket_features (stock_text stock_item);
          score = calculate_match_score rfp_features stock_features
      in filter_loop rfp_features rest
           (if score > 0
            then scored_items
              @ [add_score stock_item score (get_matched_buckets rfp_features stock_features)]
            else scored_items))"

definition py_prefix :: "'a list \<Rightarrow> int \<Rightarrow> 'a list" where
  \<comment> \<open>the slice \<open>xs[:n]\<close>; a negative \<open>n\<close> counts from the end\<close>
  "py_prefix xs n = (if 0 \<le> n then take (nat n) xs else take (length xs - nat (- n)) xs)"

definition filter_stock_by_buckets ::
    "features \<Rightarrow> stock_item list \<Rightarrow> int \<Rightarrow> scored_item list" where
  \<comment> \<open>\<open>sort(key=..., reverse=True)\<close> is a stable sort by falling score\<close>
  "filter_stock_by_buckets rfp_features stock_data max_results =
     py_prefix
       (sort_key (\<lambda>x. - match_score x) (filter_loop rfp_features stock_data []))
       max_results"


section \<open>Python values, \<open>float()\<close> and exceptions\<close>

text \<open>
  A float is a rational, an infinity or NaN. A number that arrives in a dictionary
  (\<open>PNum\<close>) is a finite one. Overflow to an infinity is outside the idealisation.
\<close>

datatype pyfloat = Fin rat | PosInf | NegInf | NaN

datatype py_exn = ValueError string | TypeError string | OtherError string

fun str_exn :: "py_exn \<Rightarrow> string" where
  "str_exn (ValueError m) = m"
| "str_exn (TypeError m) = m"
| "str_exn (OtherError m) = m"

fun fl_lt :: "pyfloat \<Rightarrow> rat \<Rightarrow> bool" where
  "fl_lt (Fin x) r = (x < r)"
| "fl_lt NegInf r = True"
| "fl_lt PosInf r = False"
| "fl_lt NaN r = False"

fun fl_le :: "pyfloat \<Rightarrow> rat \<Rightarrow> bool" where
  "fl_le (Fin x) r = (x \<le> r)"
| "fl_le NegInf r = True"
| "fl_le PosInf r = False"
| "fl_le NaN r = False"

fun fl_ge :: "pyfloat \<Rightarrow> rat \<Rightarrow> bool" where
  "fl_ge (Fin x) r = (x \<ge> r)"
| "fl_ge PosInf r = True"
| "fl_ge NegInf r = False"
| "fl_ge NaN r = False"

definition float_space :: "char \<Rightarrow> bool" where
  "float_space c \<longleftrightarrow> c = CHR '' '' \<or> (CHR 0x09 \<le> c \<and> c \<le> CHR 0x0D)"

definition strip_space :: "string \<Rightarrow> string" where
  "strip_space s = rev (dropWhile float_space (rev (dropWhile float_space s)))"

definition digit_val :: "char \<Rightarrow> nat" where
  "digit_val c =
     (case map_of (zip ''0123456789'' [0, 1, 2, 3, 4, 5, 6, 7, 8, 9]) c of
        Some d \<Rightarrow> d | None \<Rightarrow> 0)"

fun digitpart :: "string \<Rightarrow> nat list option" where
  \<comment> \<open>digits, with single underscores between digits allowed\<close>
  "digitpart [] = None"
| "digitpart [c] = (if is_digit c then Some [digit_val c] else None)"
| "digitpart (c # d # cs) =
     (if is_digit c
      then map_option (Cons (digit_val c))
             (if d = CHR ''_'' then digitpart cs else digitpart (d # cs))
      else None)"

definition digits_value :: "nat list \<Rightarrow> nat" where
  "digits_value ds = foldl (\<lambda>a d. 10 * a + d) 0 ds"

definition split_at :: "(char \<Rightarrow> bool) \<Rightarrow> string \<Rightarrow> string \<times> string option" where
  \<comment> \<open>the text before the first character with \<open>P\<close>, and the text after it if there is one\<close>
  "split_at P s =
     (takeWhile (\<lambda>c. \<not> P c) s,
      case dropWhile (\<lambda>c. \<not> P c) s of [] \<Rightarrow> None | _ # r \<Rightarrow> Some r)"

definition parse_sign :: "string \<Rightarrow> bool \<times> string" where
  "parse_sign s =
     (case s of
        [] \<Rightarrow> (False, [])
      | c # r \<Rightarrow> if c = CHR ''-'' then (True, r) else if c = CHR ''+'' then (False, r) else (False, s))"

definition parse_mantissa :: "string \<Rightarrow> rat option" where
  "parse_mantissa m =
     (case split_at (\<lambda>c. c = CHR ''.'') m of
        (ip, None) \<Rightarrow> map_option (\<lambda>ds. of_nat (digits_value ds)) (digitpart ip)
      | (ip, Some fp) \<Rightarrow>
          if ip = [] \<and> fp = [] then None
          else
            (case (if ip = [] then Some [] else digitpart ip,
                   if fp = [] then Some [] else digitpart fp) of
               (Some i, Some f) \<Rightarrow>
                 Some (of_nat (digits_value i) + of_nat (digits_value f) / 10 ^ length f)
             | _ \<Rightarrow> None))"

definition parse_exponent :: "string option \<Rightarrow> int option" where
  "parse_exponent e =
     (case e of
        None \<Rightarrow> Some 0
      | Some t \<Rightarrow>
          (case parse_sign t of
             (neg, ds) \<Rightarrow>
               map_option (\<lambda>d. if neg then - int (digits_value d) else int (digits_value d))
                 (digitpart ds)))"

definition parse_number :: "string \<Rightarrow> rat option" where
  "parse_number s =
     (case split_at (\<lambda>c. c = CHR ''e'' \<or> c = CHR ''E'') s of
        (m, e) \<Rightarrow>
          (case (parse_mantissa m, parse_exponent e) of
             (Some v, Some x) \<Rightarrow> Some (if 0 \<le> x then v * 10 ^ nat x else v / 10 ^ nat (- x))
           | _ \<Rightarrow> None))"

definition float_of_string :: "string \<Rightarrow> pyfloat option" where
  \<comment> \<open>the strings that \<open>float()\<close> accepts, and their values\<close>
  "float_of_string s =
     (case parse_sign (strip_space s) of
        (neg, body) \<Rightarrow>
          if upper body = ''INF'' \<or> upper body = ''INFINITY''
          then Some (if neg then NegInf else PosInf)
          else if upper body = ''NAN'' then Some NaN
          else map_option (\<lambda>v. Fin (if neg then - v else v)) (parse_number body))"

definition py_repr :: "string \<Rightarrow> string" where
  \<comment> \<open>\<open>repr\<close> of a string without quote, backslash or control character\<close>
  "py_repr s = CHR 0x27 # s @ [CHR 0x27]"

definition py_float :: "pyval \<Rightarrow> py_exn + pyfloat" where
  "py_float v =
     (case v of
        PNum r \<Rightarrow> Inr (Fin r)
      | PStr s \<Rightarrow>
          (case float_of_string s of
             Some f \<Rightarrow> Inr f
           | None \<Rightarrow> Inl (ValueError (''could not convert string to float: '' @ py_repr s)))
      | PNone \<Rightarrow>
          Inl (TypeError (''float() argument must be a string or a real number, not ''
                 @ py_repr ''NoneType'')))"

definition truthy :: "pyval \<Rightarrow> bool" where
  "truthy v = (case v of PNone \<Rightarrow> False | PNum r \<Rightarrow> r \<noteq> 0 | PStr s \<Rightarrow> s \<noteq> [])"

section \<open>The match classifier\<close>

text \<open>The judgment of the semantic matcher: a dictionary, a key of which may be absent.\<close>

record ai_judgment =
  ai_matched_product_code :: "string option"
  ai_matched_description :: "string option"
  ai_match_score :: "pyval option"
  ai_match_reason :: "string option"

record alternative =
  alt_product_code :: string
  alt_description :: string
  bucket_score :: rat

text \<open>
  A result dictionary. \<open>result_score\<close> is its key \<open>match_score\<close> and \<open>result_quantity\<close>
  its key \<open>on_hand_quantity\<close>; a key that only some results have is an option.
\<close>

record match_result =
  status :: string
  matched_product_code :: string
  matched_description :: string
  result_score :: pyfloat
  result_quantity :: "pyfloat option"
  match_reason :: string
  bucket_features :: "features option"
  filtered_candidates :: "nat option"
  confidence_level :: "string option"
  matched_stock_details :: "scored_item option option"
  alternative_matches :: "alternative list option"
  line_number :: "nat option"
  original_rfp_item :: "string option"
  error_message :: "string option"

definition high_confidence_threshold :: rat where "high_confidence_threshold = 80"
definition medium_confidence_threshold :: rat where "medium_confidence_threshold = 60"
definition low_confidence_threshold :: rat where "low_confidence_threshold = 40"

definition item_quantity :: "scored_item \<Rightarrow> py_exn + pyfloat" where
  \<comment> \<open>\<open>qty_str = item.get('on_hand_quantity', '0')\<close>;
      \<open>float(qty_str) if qty_str else 0\<close>\<close>
  "item_quantity stock_item =
     (let qty_str = (case on_hand_quantity stock_item of None \<Rightarrow> PStr ''0'' | Some v \<Rightarrow> v)
      in if truthy qty_str then py_float qty_str else Inr (Fin 0))"

definition determine_match_status :: "pyfloat \<Rightarrow> scored_item option \<Rightarrow> string" where
  \<comment> \<open>the \<open>except (ValueError, TypeError): pass\<close> is the \<open>Inl\<close> branch: \<open>float()\<close>
      raises nothing else here\<close>
  "determine_match_status score stock_item =
     (if fl_lt score low_confidence_threshold then ''unmatched''
      else
        (case stock_item of
           None \<Rightarrow> ''unmatched''
         | Some item \<Rightarrow>
             (case item_quantity item of
                Inr quantity \<Rightarrow> if fl_le quantity 0 then ''unavailable'' else ''matched''
              | Inl e \<Rightarrow> ''matched'')))"

definition get_confidence_level :: "pyfloat \<Rightarrow> string" where
  "get_confidence_level score =
     (if fl_ge score high_confidence_threshold then ''high''
      else if fl_ge score medium_confidence_threshold then ''medium''
      else if fl_ge score low_confidence_threshold then ''low''
      else ''very_low'')"

definition alternative_of :: "scored_item \<Rightarrow> alternative" where
  "alternative_of item =
     \<lparr>alt_product_code = get_str (product_code item),
      alt_description = get_str (description item),
      bucket_score = match_score item\<rparr>"

definition coerced_score :: "ai_judgment \<Rightarrow> py_exn + pyfloat" where
  \<comment> \<open>\<open>float(ai_result.get('match_score', 0))\<close>\<close>
  "coerced_score ai_result =
     py_float (case ai_match_score ai_result of None \<Rightarrow> PNum 0 | Some v \<Rightarrow> v)"

definition find_matched_stock_item :: "string \<Rightarrow> scored_item list \<Rightarrow> scored_item option" where
  \<comment> \<open>the first candidate with this product code; no search for an empty code\<close>
  "find_matched_stock_item product_code' filtered_stock =
     (if product_code' \<noteq> []
      then find (\<lambda>item. product_code item = Some product_code') filtered_stock
      else None)"

definition enhance_ai_result :: "ai_judgment \<Rightarrow> scored_item list \<Rightarrow> features \<Rightarrow> match_result" where
  \<comment> \<open>the \<open>except Exception\<close> of the source is the \<open>Inl\<close> branch: in the \<open>try\<close> block
      only \<open>float()\<close> of the score raises\<close>
  "enhance_ai_result ai_result filtered_stock rfp_features =
     (case coerced_score ai_result of
        Inl e \<Rightarrow>
          \<lparr>status = ''error'', matched_product_code = [], matched_description = [],
           result_score = Fin 0, result_quantity = Some (Fin 0),
           match_reason = ''Error processing AI result: '' @ str_exn e,
           bucket_features = Some rfp_features,
           filtered_candidates = Some (length filtered_stock),
           confidence_level = None, matched_stock_details = None,
           alternative_matches = None, line_number = None, original_rfp_item = None,
           error_message = None\<rparr>
      | Inr score \<Rightarrow>
          (let product_code' = get_str (ai_matched_product_code ai_result);
               matched_stock_item = find_matched_stock_item product_code' filtered_stock
           in
           \<lparr>status = determine_match_status score matched_stock_item,
            matched_product_code = product_code',
            matched_description = get_str (ai_matched_description ai_result),
            result_score = score,
            result_quantity =
              Some (case matched_stock_item of
                      None \<Rightarrow> Fin 0
                    | Some item \<Rightarrow>
                        (case item_quantity item of Inr q \<Rightarrow> q | Inl e \<Rightarrow> Fin 0)),
            match_reason = get_str (ai_match_reason ai_result),
            bucket_features = Some rfp_features,
            filtered_candidates = Some (length filtered_stock),
            confidence_level = Some (get_confidence_level score),
            matched_stock_details = Some matched_stock_item,
            alternative_matches =
              Some (map alternative_of
                      (filter (\<lambda>item. product_code item \<noteq> Some product_code')
                         (take 3 filtered_stock))),
            line_number = None, original_rfp_item = None, error_message = None\<rparr>))"

section \<open>The batch\<close>

text \<open>
  The semantic matcher is a collaborator: a parameter that, at the \<open>i\<close>-th item, either
  raises (\<open>Inl\<close>) or returns a judgment. The catalog is the list that
  \<open>get_stock_data\<close> returns.
\<close>

type_synonym matcher = "nat \<Rightarrow> string \<Rightarrow> scored_item list \<Rightarrow> py_exn + ai_judgment"

definition process_single_rfp_item ::
    "(string \<Rightarrow> scored_item list \<Rightarrow> py_exn + ai_judgment) \<Rightarrow> stock_item list \<Rightarrow> string
       \<Rightarrow> py_exn + match_result" where
  "process_single_rfp_item match_rfp_item stock_data rfp_item =
     (let rfp_features = extract_bucket_features rfp_item;
          filtered_stock = filter_stock_by_buckets rfp_features stock_data 20
      in if filtered_stock = [] then
           Inr \<lparr>status = ''unmatched'', matched_product_code = [], matched_description = [],
                result_score = Fin 0, result_quantity = Some (Fin 0),
                match_reason =
                  ''No matching products found in stock master using bucket filtering'',
                bucket_features = Some rfp_features, filtered_candidates = Some 0,
                confidence_level = None, matched_stock_details = None,
                alternative_matches = None, line_number = None, original_rfp_item = None,
                error_message = None\<rparr>
         else
           (case match_rfp_item rfp_item filtered_stock of
              Inl e \<Rightarrow> Inl e
            | Inr ai_result \<Rightarrow> Inr (enhance_ai_result ai_result filtered_stock rfp_features)))"

definition error_result :: "nat \<Rightarrow> string \<Rightarrow> py_exn \<Rightarrow> match_result" where
  "error_result n rfp_item e =
     \<lparr>status = ''error'', matched_product_code = [], matched_description = [],
      result_score = Fin 0, result_quantity = None,
      match_reason = ''Processing error: '' @ str_exn e,
      bucket_features = None, filtered_candidates = None, confidence_level = None,
      matched_stock_details = None, alternative_matches = None,
      line_number = Some n, original_rfp_item = Some rfp_item,
      error_message = Some (str_exn e)\<rparr>"

fun process_loop ::
    "matcher \<Rightarrow> stock_item list \<Rightarrow> nat \<Rightarrow> string list \<Rightarrow> match_result list
       \<Rightarrow> match_result list" where
  "process_loop m stock_data i [] results = results"
| "process_loop m stock_data i (rfp_item # rest) results =
     process_loop m stock_data (i + 1) rest
       (results @
          [case process_single_rfp_item (m i) stock_data rfp_item of
             Inr result \<Rightarrow>
               result\<lparr>line_number := Some (i + 1), original_rfp_item := Some rfp_item\<rparr>
           | Inl e \<Rightarrow> error_result (i + 1) rfp_item e])"

definition process_rfp_items :: "matcher \<Rightarrow> stock_item list \<Rightarrow> string list \<Rightarrow> match_result list" where
  "process_rfp_items m stock_data rfp_items = process_loop m stock_data 0 rfp_items []"

section \<open>The summary\<close>

text \<open>
  \<open>f'{x:.1f}'\<close> prints the tenth nearest to the float \<open>x\<close>. Where the exact value lies
  halfway between two tenths the float decides the direction; \<open>tie\<close> stands for that
  decision, and nothing below depends on it.
\<close>

definition digit_char :: "nat \<Rightarrow> char" where
  "digit_char d = ''0123456789'' ! d"

fun show_nat :: "nat \<Rightarrow> string" where
  "show_nat n = (if n < 10 then [digit_char n] else show_nat (n div 10) @ [digit_char (n mod 10)])"

definition round_tenths :: "(rat \<Rightarrow> bool) \<Rightarrow> rat \<Rightarrow> nat" where
  "round_tenths tie x =
     (let t = \<bar>x\<bar> * 10; f = nat \<lfloor>t\<rfloor>; d = t - of_nat f
      in if d < 1 / 2 then f else if 1 / 2 < d then f + 1 else if tie x then f + 1 else f)"

definition format_1f :: "(rat \<Rightarrow> bool) \<Rightarrow> rat \<Rightarrow> string" where
  "format_1f tie x =
     (if x < 0 then ''-'' else []) @ show_nat (round_tenths tie x div 10) @ ''.''
       @ show_nat (round_tenths tie x mod 10)"

definition percentage_of :: "(rat \<Rightarrow> bool) \<Rightarrow> nat \<Rightarrow> nat \<Rightarrow> string" where
  \<comment> \<open>\<open>f'{(count/total_items*100):.1f}%' if total_items > 0 else '0.0%'\<close>\<close>
  "percentage_of tie count total_items =
     (if total_items > 0
      then format_1f tie (of_nat count / of_nat total_items * 100) @ ''%''
      else ''0.0%'')"

record summary_row =
  metric :: string
  row_count :: nat
  percentage :: string

definition count_status :: "string \<Rightarrow> match_result list \<Rightarrow> nat" where
  "count_status s bom_data = length (filter (\<lambda>item. status item = s) bom_data)"

definition count_confidence :: "string \<Rightarrow> match_result list \<Rightarrow> nat" where
  "count_confidence s bom_data = length (filter (\<lambda>item. confidence_level item = Some s) bom_data)"

definition generate_bom_summary :: "(rat \<Rightarrow> bool) \<Rightarrow> match_result list \<Rightarrow> summary_row list" where
  "generate_bom_summary tie bom_data =
     (let total_items = length bom_data;
          matched = count_status ''matched'' bom_data;
          unmatched = count_status ''unmatched'' bom_data;
          unavailable = count_status ''unavailable'' bom_data;
          errors = count_status ''error'' bom_data;
          high_conf = count_confidence ''high'' bom_data;
          medium_conf = count_confidence ''medium'' bom_data;
          low_conf = count_confidence ''low'' bom_data
      in
      [\<lparr>metric = ''Total Items'', row_count = total_items, percentage = ''100.0%''\<rparr>,
       \<lparr>metric = ''Matched Items'', row_count = matched,
        percentage = percentage_of tie matched total_items\<rparr>,
       \<lparr>metric = ''Unmatched Items'', row_count = unmatched,
        percentage = percentage_of tie unmatched total_items\<rparr>,
       \<lparr>metric = ''Unavailable Items'', row_count = unavailable,
        percentage = percentage_of tie unavailable total_items\<rparr>,
       \<lparr>metric = ''Processing Errors'', row_count = errors,
        percentage = percentage_of tie errors total_items\<rparr>,
       \<lparr>metric = ''High Confidence Matches'', row_count = high_conf,
        percentage = percentage_of tie high_conf total_items\<rparr>,
       \<lparr>metric = ''Medium Confidence Matches'', row_count = medium_conf,
        percentage = percentage_of tie medium_conf total_items\<rparr>,
       \<lparr>metric = ''Low Confidence Matches'', row_count = low_conf,
        percentage = percentage_of tie low_conf total_items\<rparr>])"


section \<open>The properties, in the words of the specification\<close>

definition claimed_weight :: "nat \<Rightarrow> rat" where
  \<comment> \<open>10.0 for the buckets 1-6, 5.0 for 7-8, 2.0 for 9-11\<close>
  "claimed_weight b = (if b \<le> 6 then 10 else if b \<le> 8 then 5 else 2)"

definition claimed_score :: "features \<Rightarrow> features \<Rightarrow> rat" where
  \<comment> \<open>the sum over the buckets 1..11 that both maps have, with token sets that meet\<close>
  "claimed_score q e =
     (\<Sum>b \<in> {b \<in> {1..11}. b \<in> dom q \<and> b \<in> dom e \<and> set (the (q b)) \<inter> set (the (e b)) \<noteq> {}}.
        claimed_weight b *
          (of_nat (card (set (the (q b)) \<inter> set (the (e b))))
             / of_nat (max (card (set (the (q b)))) (card (set (the (e b)))))))"

definition zero_overlap :: "features \<Rightarrow> features \<Rightarrow> bool" where
  \<comment> \<open>no bucket 1..11 in which the two maps share a token\<close>
  "zero_overlap q e \<longleftrightarrow>
     (\<forall>b \<in> set [1 ..< 12].
        case (q b, e b) of (Some rf, Some sf) \<Rightarrow> set rf \<inter> set sf = {} | _ \<Rightarrow> True)"

definition status_tenths :: "(rat \<Rightarrow> bool) \<Rightarrow> string \<Rightarrow> match_result list \<Rightarrow> nat" where
  \<comment> \<open>the share of a status in tenths of a percent, as the summary prints it\<close>
  "status_tenths tie s bom_data =
     round_tenths tie (of_nat (count_status s bom_data) / of_nat (length bom_data) * 100)"

definition batch_entry :: "matcher \<Rightarrow> stock_item list \<Rightarrow> nat \<Rightarrow> string \<Rightarrow> match_result" where
  \<comment> \<open>what the loop of \<open>process_rfp_items\<close> appends for the item at index \<open>i\<close>\<close>
  "batch_entry m stock_data i rfp_item =
     (case process_single_rfp_item (m i) stock_data rfp_item of
        Inr result \<Rightarrow> result\<lparr>line_number := Some (i + 1), original_rfp_item := Some rfp_item\<rparr>
      | Inl e \<Rightarrow> error_result (i + 1) rfp_item e)"

definition known_status :: "match_result \<Rightarrow> bool" where
  \<comment> \<open>the status is one of the four of a match result\<close>
  "known_status r \<longleftrightarrow>
     status r = ''matched'' \<or> status r = ''unmatched'' \<or> status r = ''unavailable''
       \<or> status r = ''error''"

section \<open>Concrete inputs\<close>

definition example_query :: string where
  \<open>example_query = ''6" SCH40 SMLS PIPE API 5L X52 PSL2''\<close>

definition pipe_text :: string where
  "pipe_text = ''SMLS PIPE''"

definition pipe_features :: features where
  "pipe_features = [2 \<mapsto> [''PIPE''], 4 \<mapsto> [''SMLS'']]"

definition pipe_item :: stock_item where
  "pipe_item =
     \<lparr>product_code = Some ''P1'', description = Some ''SMLS PIPE'', material = Some [],
      size_field = Some [], specification_field = Some [],
      on_hand_quantity = Some (PStr ''5'')\<rparr>"

definition gasket_item :: stock_item where
  "gasket_item =
     \<lparr>product_code = Some ''G7'', description = Some ''GASKET'', material = Some [],
      size_field = Some [], specification_field = Some [],
      on_hand_quantity = Some (PStr ''12'')\<rparr>"

definition pipe_buckets :: "matched_bucket list" where
  "pipe_buckets =
     [\<lparr>bucket_number = 2, bucket_name = ''Item Group'', bucket_priority = High,
       matched_features = [''PIPE''], rfp_features_of = [''PIPE''],
       stock_features_of = [''PIPE'']\<rparr>,
      \<lparr>bucket_number = 4, bucket_name = ''Item Ends/Finish'', bucket_priority = High,
       matched_features = [''SMLS''], rfp_features_of = [''SMLS''],
       stock_features_of = [''SMLS'']\<rparr>]"

definition pipe_scored :: scored_item where
  "pipe_scored = add_score pipe_item 20 pipe_buckets"

definition coded :: "string \<Rightarrow> pyval \<Rightarrow> rat \<Rightarrow> scored_item" where
  \<comment> \<open>a candidate with this code, quantity and bucket score\<close>
  "coded c q s =
     add_score
       \<lparr>product_code = Some c, description = Some ''PIPE'', material = Some [],
        size_field = Some [], specification_field = Some [], on_hand_quantity = Some q\<rparr>
       s []"

definition judged :: "string \<Rightarrow> pyval \<Rightarrow> ai_judgment" where
  \<comment> \<open>a judgment with this code and score\<close>
  "judged c s =
     \<lparr>ai_matched_product_code = Some c, ai_matched_description = Some ''PIPE'',
      ai_match_score = Some s, ai_match_reason = Some ''same item''\<rparr>"

definition five_candidates :: "scored_item list" where
  "five_candidates =
     [coded ''A'' (PStr ''5'') 20, coded ''B'' (PStr ''5'') 18, coded ''C'' (PStr ''5'') 15,
      coded ''D'' (PStr ''5'') 12, coded ''E'' (PStr ''5'') 10]"

definition failing_matcher :: matcher where
  "failing_matcher i rfp_item candidates = Inl (OtherError ''service unavailable'')"

definition ties_down :: "rat \<Rightarrow> bool" where
  "ties_down x = False"

definition result_with :: "string \<Rightarrow> match_result" where
  \<comment> \<open>a result with this status\<close>
  "result_with s = (error_result 1 [] (OtherError []))\<lparr>status := s\<rparr>"

definition three_results :: "match_result list" where
  "three_results = [result_with ''matched'', result_with ''unmatched'', result_with ''error'']"

section \<open>Facts about the score\<close>

lemma bucket_weight_range:
  assumes "b \<in> {1..11}"
  shows "bucket_weight b = (if b \<le> 6 then 10 else if b \<le> 8 then 5 else 2)"
proof -
  from assms have "b = 1 \<or> b = 2 \<or> b = 3 \<or> b = 4 \<or> b = 5 \<or> b = 6 \<or> b = 7 \<or> b = 8 \<or> b = 9
      \<or> b = 10 \<or> b = 11"
    by (simp only: atLeastAtMost_iff) arith
  then show ?thesis
    by (elim disjE) (simp_all add: bucket_weight_def bucket_definitions_def bucket_weights_def)
qed

lemma score_step_add:
  "score_step q e b t = t + score_step q e b 0"
  by (simp add: score_step_def Let_def split: option.splits)

lemma score_loop_sum:
  "score_loop bs q e t = t + (\<Sum>b\<leftarrow>bs. score_step q e b 0)"
proof (induction bs arbitrary: t)
  case Nil
  then show ?case by simp
next
  case (Cons b bs)
  have "score_loop (b # bs) q e t = score_step q e b t + (\<Sum>b\<leftarrow>bs. score_step q e b 0)"
    by (simp add: Cons.IH)
  also have "\<dots> = t + score_step q e b 0 + (\<Sum>b\<leftarrow>bs. score_step q e b 0)"
    using score_step_add [of q e b t] by simp
  finally show ?case by simp
qed

lemma calculate_as_sum:
  "calculate_match_score q e = (\<Sum>b \<in> {1..11}. score_step q e b 0)"
proof -
  have "calculate_match_score q e = (\<Sum>b\<leftarrow>[1 ..< 12]. score_step q e b 0)"
    by (simp add: calculate_match_score_def score_loop_sum)
  also have "\<dots> = (\<Sum>b \<in> set [1 ..< 12]. score_step q e b 0)"
    by (rule sum_list_distinct_conv_sum_set) simp
  also have "set [1 ..< 12] = {1..11::nat}" by auto
  finally show ?thesis .
qed

lemma score_step_zero:
  "score_step q e b 0 =
     (if b \<in> dom q \<and> b \<in> dom e \<and> set (the (q b)) \<inter> set (the (e b)) \<noteq> {}
      then bucket_weight b *
          (of_nat (card (set (the (q b)) \<inter> set (the (e b))))
             / of_nat (max (card (set (the (q b)))) (card (set (the (e b))))))
      else 0)"
  by (auto simp add: score_step_def Let_def card_gt_0_iff split: option.splits)

lemma calculate_claimed: "calculate_match_score q e = claimed_score q e"
proof -
  let ?share = "\<lambda>b. claimed_weight b *
          (of_nat (card (set (the (q b)) \<inter> set (the (e b))))
             / of_nat (max (card (set (the (q b)))) (card (set (the (e b))))))"
  let ?P = "\<lambda>b. b \<in> dom q \<and> b \<in> dom e \<and> set (the (q b)) \<inter> set (the (e b)) \<noteq> {}"
  have "calculate_match_score q e = (\<Sum>b \<in> {1..11}. if ?P b then ?share b else 0)"
    unfolding calculate_as_sum
    by (rule sum.cong) (simp_all add: score_step_zero bucket_weight_range claimed_weight_def)
  also have "\<dots> = (\<Sum>b \<in> {b \<in> {1..11}. ?P b}. ?share b)"
    by (rule sum.inter_filter [symmetric]) simp
  finally show ?thesis by (simp add: claimed_score_def)
qed

lemma filter_loop_eq:
  "filter_loop q items acc =
     acc @ map (\<lambda>i. add_score i (calculate_match_score q (extract_bucket_features (stock_text i)))
                  (get_matched_buckets q (extract_bucket_features (stock_text i))))
             (filter (\<lambda>i. calculate_match_score q (extract_bucket_features (stock_text i)) > 0) items)"
  by (induction items arbitrary: acc) (simp_all add: Let_def)

lemma set_py_prefix: "set (py_prefix xs n) \<subseteq> set xs"
  by (auto simp add: py_prefix_def dest: in_set_takeD)

lemma stock_text_add_score [simp]: "stock_text (add_score i s bs) = stock_text i"
  by (simp add: stock_text_def add_score_def stock_item.extend_def)

lemma match_score_add_score [simp]: "match_score (add_score i s bs) = s"
  by (simp add: add_score_def stock_item.extend_def scored_item.fields_def)

lemma truncate_add_score [simp]: "stock_item.truncate (add_score i s bs) = i"
  by (simp add: add_score_def stock_item.extend_def stock_item.truncate_def)

lemma in_filter_stock:
  assumes "c \<in> set (filter_stock_by_buckets q catalog n)"
  shows "\<exists>i \<in> set catalog. 0 < calculate_match_score q (extract_bucket_features (stock_text i))
     \<and> c = add_score i (calculate_match_score q (extract_bucket_features (stock_text i)))
                  (get_matched_buckets q (extract_bucket_features (stock_text i)))"
proof -
  from assms set_py_prefix have "c \<in> set (filter_loop q catalog [])"
    unfolding filter_stock_by_buckets_def by fastforce
  then show ?thesis by (auto simp add: filter_loop_eq)
qed

lemma ratio_le_one:
  assumes "a \<le> m"
  shows "(of_nat a :: rat) / of_nat m \<le> 1"
proof (cases "m = 0")
  case True
  then show ?thesis by simp
next
  case False
  then show ?thesis using assms by (simp add: divide_le_eq_1)
qed

lemma claimed_weight_nonneg: "0 \<le> claimed_weight b"
  by (simp add: claimed_weight_def)

lemma step_bounds:
  assumes "b \<in> {1..11}"
  shows "0 \<le> score_step q e b 0 \<and> score_step q e b 0 \<le> claimed_weight b"
proof (cases "b \<in> dom q \<and> b \<in> dom e \<and> set (the (q b)) \<inter> set (the (e b)) \<noteq> {}")
  case False
  then show ?thesis
    using claimed_weight_nonneg [of b] by (simp add: score_step_zero)
next
  case True
  let ?A = "set (the (q b))" and ?B = "set (the (e b))"
  let ?r = "(of_nat (card (?A \<inter> ?B)) :: rat) / of_nat (max (card ?A) (card ?B))"
  have "card (?A \<inter> ?B) \<le> card ?A" by (simp add: card_mono)
  then have "card (?A \<inter> ?B) \<le> max (card ?A) (card ?B)" by simp
  then have le: "?r \<le> 1" by (rule ratio_le_one)
  have ge: "0 \<le> ?r" by simp
  have step: "score_step q e b 0 = claimed_weight b * ?r"
    using True assms by (simp add: score_step_zero bucket_weight_range claimed_weight_def)
  have "claimed_weight b * ?r \<le> claimed_weight b * 1"
    using le claimed_weight_nonneg by (rule mult_left_mono)
  moreover have "0 \<le> claimed_weight b * ?r"
    using claimed_weight_nonneg ge by (rule mult_nonneg_nonneg)
  ultimately show ?thesis using step by simp
qed

lemma claimed_weight_total: "(\<Sum>b \<in> {1..11}. claimed_weight b) = 76"
proof -
  have "{1..11::nat} = set [1 ..< 12]" by auto
  then have "(\<Sum>b \<in> {1..11}. claimed_weight b) = (\<Sum>b\<leftarrow>[1 ..< 12]. claimed_weight b)"
    by (simp add: sum_list_distinct_conv_sum_set)
  also have "\<dots> = 76" by code_simp
  finally show ?thesis .
qed

lemma score_range: "0 \<le> calculate_match_score q e \<and> calculate_match_score q e \<le> 76"
proof
  show "0 \<le> calculate_match_score q e"
    unfolding calculate_as_sum using step_bounds by (intro sum_nonneg) blast
  have "calculate_match_score q e \<le> (\<Sum>b \<in> {1..11}. claimed_weight b)"
    unfolding calculate_as_sum using step_bounds by (intro sum_mono) blast
  then show "calculate_match_score q e \<le> 76"
    by (simp only: claimed_weight_total)
qed

lemma zero_overlap_score:
  assumes "zero_overlap q e"
  shows "calculate_match_score q e = 0"
proof -
  have "score_step q e b 0 = 0" if "b \<in> {1..11}" for b
  proof -
    from that have "b \<in> set [1 ..< 12]" by auto
    with assms have "case (q b, e b) of (Some rf, Some sf) \<Rightarrow> set rf \<inter> set sf = {} | _ \<Rightarrow> True"
      unfolding zero_overlap_def by blast
    then show ?thesis
      by (auto simp add: score_step_def Let_def split: option.splits)
  qed
  then show ?thesis by (simp add: calculate_as_sum)
qed

lemma length_py_prefix: "0 \<le> n \<Longrightarrow> length (py_prefix xs n) \<le> nat n"
  by (simp add: py_prefix_def)

lemma sorted_py_prefix: "sorted_wrt R xs \<Longrightarrow> sorted_wrt R (py_prefix xs n)"
  by (simp add: py_prefix_def)

lemma sorted_by_score:
  "sorted_wrt (\<lambda>a b. match_score b \<le> match_score a) (sort_key (\<lambda>x. - match_score x) xs)"
proof -
  have "sorted (map (\<lambda>x. - match_score x) (sort_key (\<lambda>x. - match_score x) xs))"
    by (rule sorted_sort_key)
  then show ?thesis by (simp add: sorted_map)
qed

section \<open>Evaluating the extraction on concrete texts\<close>

lemma patterns_compile:
  "list_all (\<lambda>(n, d). list_all (\<lambda>p. re_compile p \<noteq> None) (patterns d)) bucket_definitions"
  by code_simp

lemma bucket_keys: "map fst bucket_definitions = [1 ..< 12]"
  by code_simp

lemma extract_loop_matches:
  "extract_loop defs u f =
     foldl (\<lambda>f (n, m). if m \<noteq> [] then f(n \<mapsto> remdups m) else f) f
       (map (\<lambda>(n, d). (n, bucket_matches d u)) defs)"
  by (induction defs arbitrary: f) (auto simp add: Let_def)

lemma extract_by_matches:
  assumes "map (\<lambda>(n, d). (n, bucket_matches d (upper text))) bucket_definitions = found"
  shows "extract_bucket_features text =
     foldl (\<lambda>f (n, m). if m \<noteq> [] then f(n \<mapsto> remdups m) else f) Map.empty found"
  using assms by (simp add: extract_bucket_features_def extract_loop_matches)

lemma pipe_text_matches:
  "map (\<lambda>(n, d). (n, bucket_matches d (upper pipe_text))) bucket_definitions =
     [(1, []), (2, [''PIPE'']), (3, []), (4, [''SMLS'']), (5, []), (6, []), (7, []),
      (8, []), (9, []), (10, []), (11, [])]"
  by code_simp

lemma pipe_item_matches:
  "map (\<lambda>(n, d). (n, bucket_matches d (upper (stock_text pipe_item)))) bucket_definitions =
     [(1, []), (2, [''PIPE'']), (3, []), (4, [''SMLS'']), (5, []), (6, []), (7, []),
      (8, []), (9, []), (10, []), (11, [])]"
  by code_simp

lemma gasket_item_matches:
  "map (\<lambda>(n, d). (n, bucket_matches d (upper (stock_text gasket_item)))) bucket_definitions =
     [(1, []), (2, []), (3, []), (4, []), (5, []), (6, []), (7, []),
      (8, []), (9, []), (10, []), (11, [])]"
  by code_simp

lemma pipe_text_features: "extract_bucket_features pipe_text = pipe_features"
  by (simp add: extract_by_matches [OF pipe_text_matches] pipe_features_def)

lemma pipe_item_features: "extract_bucket_features (stock_text pipe_item) = pipe_features"
  by (simp add: extract_by_matches [OF pipe_item_matches] pipe_features_def)

lemma gasket_item_features: "extract_bucket_features (stock_text gasket_item) = Map.empty"
  by (simp add: extract_by_matches [OF gasket_item_matches])

lemma pipe_pipe_score: "calculate_match_score pipe_features pipe_features = 20"
  by code_simp

lemma pipe_empty_score: "calculate_match_score pipe_features Map.empty = 0"
  by code_simp

lemma pipe_pipe_buckets: "get_matched_buckets pipe_features pipe_features = pipe_buckets"
  by code_simp

lemma demo_filter_loop: "filter_loop pipe_features [gasket_item, pipe_item] [] = [pipe_scored]"
  by (simp add: pipe_item_features gasket_item_features pipe_pipe_score pipe_empty_score
      pipe_pipe_buckets pipe_scored_def)

lemma demo_filter:
  "0 < n \<Longrightarrow> filter_stock_by_buckets pipe_features [gasket_item, pipe_item] n = [pipe_scored]"
proof -
  assume "0 < n"
  then obtain k where "nat n = Suc k" by (cases "nat n") auto
  then show ?thesis
    using \<open>0 < n\<close>
    by (simp add: filter_stock_by_buckets_def demo_filter_loop py_prefix_def
        del: filter_loop.simps)
qed

lemma demo_zero_overlap:
  "zero_overlap pipe_features (extract_bucket_features (stock_text gasket_item))"
  by (simp add: zero_overlap_def gasket_item_features split: option.splits)

lemma pipe_scored_fields:
  "match_score pipe_scored = 20" "stock_item.truncate pipe_scored = pipe_item"
  "stock_text pipe_scored = stock_text pipe_item"
  by (simp_all add: pipe_scored_def)

lemma demo_items_differ: "pipe_item \<noteq> gasket_item"
  by (simp add: pipe_item_def gasket_item_def)

section \<open>The claims about the bucket filter\<close>

text \<open>
  Claim C1: for every query feature map and every catalog entry, the score that the
  bucket filter computes is the sum, over the buckets 1..11 that the query's and the
  entry's feature maps both have and in which their token sets meet, of
  weight * (|intersection| / max(|query set|, |entry set|)), with weight 10 for the
  buckets 1-6, 5 for 7-8 and 2 for 9-11. The entry's feature map is extracted from
  \<open>stock_text\<close>, its product code, description, material, size and specification
  joined by single blanks. Every candidate that the filter returns is an entry of the
  catalog with this score attached.
\<close>

theorem candidate_score_formula:
  "calculate_match_score q (extract_bucket_features (stock_text item))
     = claimed_score q (extract_bucket_features (stock_text item))
   \<and> (\<forall>c \<in> set (filter_stock_by_buckets q catalog n).
         stock_item.truncate c \<in> set catalog
       \<and> match_score c = claimed_score q (extract_bucket_features (stock_text c)))"
proof (intro conjI ballI)
  show "calculate_match_score q (extract_bucket_features (stock_text item))
     = claimed_score q (extract_bucket_features (stock_text item))"
    by (rule calculate_claimed)
next
  fix c assume "c \<in> set (filter_stock_by_buckets q catalog n)"
  then obtain i where i: "i \<in> set catalog"
    and c: "c = add_score i (calculate_match_score q (extract_bucket_features (stock_text i)))
                  (get_matched_buckets q (extract_bucket_features (stock_text i)))"
    using in_filter_stock by blast
  show "stock_item.truncate c \<in> set catalog" using i c by simp
  show "match_score c = claimed_score q (extract_bucket_features (stock_text c))"
    using c by (simp add: calculate_claimed)
qed

theorem candidate_score_formula_witness:
  "pipe_scored \<in> set (filter_stock_by_buckets pipe_features [gasket_item, pipe_item] 20)
   \<and> stock_item.truncate pipe_scored \<in> set [gasket_item, pipe_item]
   \<and> match_score pipe_scored
       = claimed_score pipe_features (extract_bucket_features (stock_text pipe_scored))"
  using candidate_score_formula [of pipe_features pipe_item "[gasket_item, pipe_item]" 20]
    demo_filter [of 20]
  by simp

text \<open>
  Claim C2: for every query feature map, catalog and non-negative \<open>max_results\<close>, the
  list that \<open>filter_stock_by_buckets\<close> returns is sorted by falling score, has at most
  \<open>max_results\<close> elements, holds no element of score 0, and holds no catalog entry
  whose features share no token with the query in any bucket.
\<close>

theorem filter_sorted_truncated:
  assumes "0 \<le> max_results"
  shows "sorted_wrt (\<lambda>a b. match_score b \<le> match_score a)
           (filter_stock_by_buckets q catalog max_results)
   \<and> length (filter_stock_by_buckets q catalog max_results) \<le> nat max_results
   \<and> (\<forall>c \<in> set (filter_stock_by_buckets q catalog max_results). match_score c \<noteq> 0)
   \<and> (\<forall>item \<in> set catalog.
         zero_overlap q (extract_bucket_features (stock_text item)) \<longrightarrow>
         (\<forall>c \<in> set (filter_stock_by_buckets q catalog max_results).
            stock_item.truncate c \<noteq> item))"
proof (intro conjI ballI impI)
  show "sorted_wrt (\<lambda>a b. match_score b \<le> match_score a)
           (filter_stock_by_buckets q catalog max_results)"
    unfolding filter_stock_by_buckets_def by (intro sorted_py_prefix sorted_by_score)
  show "length (filter_stock_by_buckets q catalog max_results) \<le> nat max_results"
    unfolding filter_stock_by_buckets_def using assms by (rule length_py_prefix)
next
  fix c assume "c \<in> set (filter_stock_by_buckets q catalog max_results)"
  then obtain i where "0 < calculate_match_score q (extract_bucket_features (stock_text i))"
    and "c = add_score i (calculate_match_score q (extract_bucket_features (stock_text i)))
                  (get_matched_buckets q (extract_bucket_features (stock_text i)))"
    using in_filter_stock by blast
  then show "match_score c \<noteq> 0" by simp
next
  fix item :: stock_item and c
  assume zero: "zero_overlap q (extract_bucket_features (stock_text item))"
    and "c \<in> set (filter_stock_by_buckets q catalog max_results)"
  then obtain i where pos: "0 < calculate_match_score q (extract_bucket_features (stock_text i))"
    and c: "c = add_score i (calculate_match_score q (extract_bucket_features (stock_text i)))
                  (get_matched_buckets q (extract_bucket_features (stock_text i)))"
    using in_filter_stock by blast
  show "stock_item.truncate c \<noteq> item"
  proof
    assume "stock_item.truncate c = item"
    with c have "i = item" by simp
    with pos zero_overlap_score [OF zero] show False by simp
  qed
qed

theorem filter_sorted_truncated_witness:
  "(0::int) \<le> 1
   \<and> filter_stock_by_buckets pipe_features [gasket_item, pipe_item] 1 = [pipe_scored]
   \<and> length (filter_stock_by_buckets pipe_features [gasket_item, pipe_item] 1) \<le> nat 1
   \<and> match_score pipe_scored \<noteq> 0
   \<and> gasket_item \<in> set [gasket_item, pipe_item]
   \<and> zero_overlap pipe_features (extract_bucket_features (stock_text gasket_item))
   \<and> stock_item.truncate pipe_scored \<noteq> gasket_item"
  using filter_sorted_truncated [of 1 pipe_features "[gasket_item, pipe_item]"]
    demo_filter [of 1] demo_zero_overlap
  by simp

text \<open>
  Claim C10: for every pair of feature maps the match score is at most 76 (each bucket
  adds at most its weight, and the weights sum to 6 * 10 + 2 * 5 + 3 * 2 = 76), so
  every candidate that \<open>filter_stock_by_buckets\<close> returns has a score in the range
  (0, 76].
\<close>

theorem match_score_bounded:
  "calculate_match_score q e \<le> 76
   \<and> (\<forall>c \<in> set (filter_stock_by_buckets q catalog n). 0 < match_score c \<and> match_score c \<le> 76)"
proof (intro conjI ballI)
  show "calculate_match_score q e \<le> 76" using score_range by blast
next
  fix c assume "c \<in> set (filter_stock_by_buckets q catalog n)"
  then obtain i where "0 < calculate_match_score q (extract_bucket_features (stock_text i))"
    and "c = add_score i (calculate_match_score q (extract_bucket_features (stock_text i)))
                  (get_matched_buckets q (extract_bucket_features (stock_text i)))"
    using in_filter_stock by blast
  then show "0 < match_score c" and "match_score c \<le> 76"
    using score_range by simp_all
qed

theorem match_score_bounded_witness:
  "pipe_scored \<in> set (filter_stock_by_buckets pipe_features [gasket_item, pipe_item] 20)
   \<and> 0 < match_score pipe_scored \<and> match_score pipe_scored \<le> 76"
  using match_score_bounded [of pipe_features pipe_features "[gasket_item, pipe_item]" 20]
    demo_filter [of 20]
  by simp

section \<open>The claim about the example query\<close>

lemma example_query_matches:
  "map (\<lambda>(n, d). (n, bucket_matches d (upper example_query))) bucket_definitions =
     [(1, []), (2, [''PIPE'']), (3, []), (4, [''SMLS'']), (5, []), (6, []), (7, [''X52'']),
      (8, [''SCH40'']), (9, []), (10, []), (11, [''API'', ''PSL2''])]"
  by code_simp

text \<open>
  Claim C8 says that the text \<open>6" SCH40 SMLS PIPE API 5L X52 PSL2\<close> gives the buckets
  2, 4, 7, 8, 9 and 11, with the size 6 in bucket 9. The pattern of bucket 9 ends in
  \<open>"\b\<close>, and there is no word boundary between the inch sign and the blank after it:
  the extraction finds no size, and bucket 9 is absent. The other five buckets are as
  the claim says.
\<close>

theorem example_query_features:
  "extract_bucket_features example_query =
     [2 \<mapsto> [''PIPE''], 4 \<mapsto> [''SMLS''], 7 \<mapsto> [''X52''], 8 \<mapsto> [''SCH40''],
      11 \<mapsto> [''API'', ''PSL2'']]
   \<and> extract_bucket_features example_query 9 = None"
  by (simp add: extract_by_matches [OF example_query_matches])

section \<open>The claims about the match classifier\<close>

lemma enhance_status:
  assumes "coerced_score j = Inr score"
  shows "status (enhance_ai_result j cands f) =
     determine_match_status score
       (find_matched_stock_item (get_str (ai_matched_product_code j)) cands)"
  using assms by (simp add: enhance_ai_result_def Let_def)

lemma enhance_score:
  assumes "coerced_score j = Inr score"
  shows "result_score (enhance_ai_result j cands f) = score"
  using assms by (simp add: enhance_ai_result_def Let_def)

lemma enhance_alternatives:
  assumes "coerced_score j = Inr score"
  shows "alternative_matches (enhance_ai_result j cands f) =
     Some (map alternative_of
             (filter (\<lambda>item. product_code item \<noteq> Some (get_str (ai_matched_product_code j)))
                (take 3 cands)))"
  using assms by (simp add: enhance_ai_result_def Let_def)

lemma enhance_error:
  assumes "coerced_score j = Inl e"
  shows "status (enhance_ai_result j cands f) = ''error''"
    and "result_score (enhance_ai_result j cands f) = Fin 0"
    and "alternative_matches (enhance_ai_result j cands f) = None"
  using assms by (simp_all add: enhance_ai_result_def)

lemma status_not_error: "determine_match_status score it \<noteq> ''error''"
  by (simp add: determine_match_status_def split: option.splits sum.splits)

lemma status_below_threshold:
  "fl_lt score 40 \<Longrightarrow> determine_match_status score it = ''unmatched''"
  by (simp add: determine_match_status_def low_confidence_threshold_def)

lemma status_no_item: "determine_match_status score None = ''unmatched''"
  by (simp add: determine_match_status_def)

lemma ge_not_lt: "fl_ge score 40 \<Longrightarrow> \<not> fl_lt score 40"
  by (cases score) simp_all

lemma status_of_item:
  assumes "fl_ge score 40"
  shows "determine_match_status score (Some item) =
     (case item_quantity item of
        Inr quantity \<Rightarrow> if fl_le quantity 0 then ''unavailable'' else ''matched''
      | Inl e \<Rightarrow> ''matched'')"
  using ge_not_lt [OF assms]
  by (simp add: determine_match_status_def low_confidence_threshold_def)

lemma find_matched_none:
  assumes "\<forall>c \<in> set cands. product_code c \<noteq> Some code"
  shows "find_matched_stock_item code cands = None"
  using assms by (simp add: find_matched_stock_item_def find_None_iff)

lemma score_85: "coerced_score (judged c (PStr ''85'')) = Inr (Fin 85)"
  by code_simp

lemma score_39: "coerced_score (judged c (PStr ''39.9'')) = Inr (Fin (399 / 10))"
  by code_simp

lemma score_abc:
  "coerced_score (judged c (PStr ''abc''))
     = Inl (ValueError (''could not convert string to float: '' @ py_repr ''abc''))"
  by code_simp

lemma score_zero: "coerced_score (judged c (PNum 0)) = Inr (Fin 0)"
  by (simp add: coerced_score_def judged_def py_float_def)

lemma coded_fields:
  "product_code (coded c q s) = Some c" "on_hand_quantity (coded c q s) = Some q"
  "match_score (coded c q s) = s" "description (coded c q s) = Some ''PIPE''"
  by (simp_all add: coded_def add_score_def stock_item.extend_def scored_item.fields_def)

lemma judged_fields:
  "ai_matched_product_code (judged c s) = Some c" "ai_match_score (judged c s) = Some s"
  by (simp_all add: judged_def)

text \<open>
  Claim C3, amended: for every judgment whose score \<open>float()\<close> accepts and every
  candidate list, the status is \<open>unmatched\<close> whenever the coerced score is below 40,
  whatever the candidates and their quantities, and whenever no candidate has a product
  code equal to the judgment's, however high the score. (As stated, for every judgment,
  the claim fails: a score that \<open>float()\<close> rejects gives the status \<open>error\<close>.)
\<close>

theorem classifier_unmatched:
  assumes "coerced_score j = Inr score"
  shows "(fl_lt score 40 \<longrightarrow> status (enhance_ai_result j cands f) = ''unmatched'')
   \<and> ((\<forall>c \<in> set cands. product_code c \<noteq> Some (get_str (ai_matched_product_code j))) \<longrightarrow>
        status (enhance_ai_result j cands f) = ''unmatched'')"
  by (simp add: enhance_status [OF assms] status_below_threshold find_matched_none
      status_no_item)

theorem classifier_unmatched_witness:
  "coerced_score (judged ''X1'' (PStr ''85'')) = Inr (Fin 85)
   \<and> product_code (coded ''P1'' (PStr ''5'') 20) \<noteq> Some ''X1''
   \<and> status (enhance_ai_result (judged ''X1'' (PStr ''85'')) [coded ''P1'' (PStr ''5'') 20]
        pipe_features) = ''unmatched''
   \<and> coerced_score (judged ''P1'' (PStr ''39.9'')) = Inr (Fin (399 / 10))
   \<and> fl_lt (Fin (399 / 10)) 40
   \<and> status (enhance_ai_result (judged ''P1'' (PStr ''39.9'')) [coded ''P1'' (PStr ''5'') 20]
        pipe_features) = ''unmatched''"
  using classifier_unmatched [OF score_85, of "''X1''" "[coded ''P1'' (PStr ''5'') 20]" pipe_features]
    classifier_unmatched [OF score_39, of "''P1''" "[coded ''P1'' (PStr ''5'') 20]" pipe_features]
    score_85 [of "''X1''"] score_39 [of "''P1''"]
  by (simp add: coded_fields judged_fields get_str_def)

theorem classifier_unmatched_counterexample:
  "status (enhance_ai_result (judged ''X1'' (PStr ''abc'')) [coded ''P1'' (PStr ''5'') 20]
        pipe_features) = ''error''
   \<and> product_code (coded ''P1'' (PStr ''5'') 20) \<noteq> Some ''X1''"
  by (simp add: enhance_error [OF score_abc] coded_fields)

subsection \<open>Availability\<close>

lemma item_quantity_cases:
  "item_quantity item =
     (case on_hand_quantity item of
        None \<Rightarrow> Inr (Fin 0)
      | Some v \<Rightarrow> if truthy v then py_float v else Inr (Fin 0))"
proof -
  have "py_float (PStr ''0'') = Inr (Fin 0)" by code_simp
  then show ?thesis
    by (simp add: item_quantity_def Let_def truthy_def split: option.splits)
qed

lemma py_float_rejected:
  "float_of_string s = None \<Longrightarrow> \<exists>e. py_float (PStr s) = Inl e"
  by (simp add: py_float_def)

text \<open>
  Claim C4, amended: for every judgment with a coerced score of at least 40 and a
  matched entry among the candidates, the status is \<open>unavailable\<close> when the entry's
  quantity is absent, \<open>None\<close>, empty or zero (all read as 0) or is a value that
  \<open>float()\<close> turns into a number at most 0, and \<open>matched\<close> otherwise; a non-empty
  string that \<open>float()\<close> rejects is treated as available.
\<close>

theorem availability_status:
  assumes "coerced_score j = Inr score" and "fl_ge score 40"
    and "find_matched_stock_item (get_str (ai_matched_product_code j)) cands = Some item"
  shows "(on_hand_quantity item = None \<longrightarrow>
            status (enhance_ai_result j cands f) = ''unavailable'')
   \<and> (\<forall>v. on_hand_quantity item = Some v \<and> \<not> truthy v \<longrightarrow>
            status (enhance_ai_result j cands f) = ''unavailable'')
   \<and> (\<forall>v q. on_hand_quantity item = Some v \<and> truthy v \<and> py_float v = Inr q \<longrightarrow>
            status (enhance_ai_result j cands f)
              = (if fl_le q 0 then ''unavailable'' else ''matched''))
   \<and> (\<forall>s. on_hand_quantity item = Some (PStr s) \<and> s \<noteq> [] \<and> float_of_string s = None \<longrightarrow>
            status (enhance_ai_result j cands f) = ''matched'')"
proof -
  have st: "status (enhance_ai_result j cands f) =
     (case item_quantity item of
        Inr quantity \<Rightarrow> if fl_le quantity 0 then ''unavailable'' else ''matched''
      | Inl e \<Rightarrow> ''matched'')"
    by (simp add: enhance_status [OF assms(1)] assms(3) status_of_item [OF assms(2)])
  show ?thesis
  proof (intro conjI allI impI)
    assume "on_hand_quantity item = None"
    then show "status (enhance_ai_result j cands f) = ''unavailable''"
      by (simp add: st item_quantity_cases)
  next
    fix v assume "on_hand_quantity item = Some v \<and> \<not> truthy v"
    then show "status (enhance_ai_result j cands f) = ''unavailable''"
      by (simp add: st item_quantity_cases)
  next
    fix v q assume "on_hand_quantity item = Some v \<and> truthy v \<and> py_float v = Inr q"
    then show "status (enhance_ai_result j cands f)
              = (if fl_le q 0 then ''unavailable'' else ''matched'')"
      by (simp add: st item_quantity_cases)
  next
    fix s assume a: "on_hand_quantity item = Some (PStr s) \<and> s \<noteq> [] \<and> float_of_string s = None"
    then obtain e where "py_float (PStr s) = Inl e" using py_float_rejected by blast
    with a show "status (enhance_ai_result j cands f) = ''matched''"
      by (simp add: st item_quantity_cases truthy_def)
  qed
qed

lemma find_coded:
  "c \<noteq> [] \<Longrightarrow> find_matched_stock_item c [coded c q s] = Some (coded c q s)"
  by (simp add: find_matched_stock_item_def coded_fields)

lemma float_examples:
  "py_float (PStr ''5'') = Inr (Fin 5)" "py_float (PStr ''0'') = Inr (Fin 0)"
  "float_of_string ''n/a'' = None" "float_of_string [] = None"
  by code_simp+

theorem availability_status_witness:
  "coerced_score (judged ''P1'' (PStr ''85'')) = Inr (Fin 85) \<and> fl_ge (Fin 85) 40
   \<and> status (enhance_ai_result (judged ''P1'' (PStr ''85'')) [coded ''P1'' (PStr ''5'') 20]
        pipe_features) = ''matched''
   \<and> status (enhance_ai_result (judged ''P1'' (PStr ''85'')) [coded ''P1'' (PStr ''0'') 20]
        pipe_features) = ''unavailable''
   \<and> status (enhance_ai_result (judged ''P1'' (PStr ''85'')) [coded ''P1'' (PStr ''n/a'') 20]
        pipe_features) = ''matched''
   \<and> status (enhance_ai_result (judged ''P1'' (PStr ''85'')) [coded ''P1'' PNone 20]
        pipe_features) = ''unavailable''"
  using
    availability_status [OF score_85, of "''P1''" "[coded ''P1'' (PStr ''5'') 20]"
      "coded ''P1'' (PStr ''5'') 20" pipe_features]
    availability_status [OF score_85, of "''P1''" "[coded ''P1'' (PStr ''0'') 20]"
      "coded ''P1'' (PStr ''0'') 20" pipe_features]
    availability_status [OF score_85, of "''P1''" "[coded ''P1'' (PStr ''n/a'') 20]"
      "coded ''P1'' (PStr ''n/a'') 20" pipe_features]
    availability_status [OF score_85, of "''P1''" "[coded ''P1'' PNone 20]"
      "coded ''P1'' PNone 20" pipe_features]
    score_85 [of "''P1''"]
  by (simp add: find_coded coded_fields judged_fields get_str_def float_examples truthy_def)

theorem availability_status_counterexample:
  "status (enhance_ai_result (judged ''P1'' (PStr ''85'')) [coded ''P1'' (PStr []) 20]
        pipe_features) = ''unavailable''
   \<and> float_of_string [] = None"
proof -
  have "find_matched_stock_item (get_str (ai_matched_product_code (judged ''P1'' (PStr ''85''))))
      [coded ''P1'' (PStr []) 20] = Some (coded ''P1'' (PStr []) 20)"
    by (simp add: judged_fields get_str_def find_coded)
  then have "status (enhance_ai_result (judged ''P1'' (PStr ''85'')) [coded ''P1'' (PStr []) 20]
        pipe_features) = ''unavailable''"
    by (simp add: enhance_status [OF score_85] status_of_item item_quantity_cases coded_fields
        truthy_def)
  then show ?thesis by (simp add: float_examples)
qed

subsection \<open>Coercion of the score\<close>

text \<open>
  Claim C5, amended: the classifier coerces the judgment's score with \<open>float()\<close>. A
  missing score is read as 0 and gives \<open>unmatched\<close>; a number or a numeric string is
  read as its value, and the result is then never an \<open>error\<close>; a string that
  \<open>float()\<close> rejects gives an \<open>error\<close> result with match score 0, not an
  \<open>unmatched\<close> one.
\<close>

theorem score_coercion:
  "(ai_match_score j = None \<longrightarrow>
      coerced_score j = Inr (Fin 0) \<and> status (enhance_ai_result j cands f) = ''unmatched'')
   \<and> (\<forall>r. ai_match_score j = Some (PNum r) \<longrightarrow> coerced_score j = Inr (Fin r))
   \<and> (\<forall>s x. ai_match_score j = Some (PStr s) \<and> float_of_string s = Some x \<longrightarrow>
          coerced_score j = Inr x)
   \<and> (\<forall>x. coerced_score j = Inr x \<longrightarrow>
          result_score (enhance_ai_result j cands f) = x
        \<and> status (enhance_ai_result j cands f) \<noteq> ''error'')
   \<and> (\<forall>s. ai_match_score j = Some (PStr s) \<and> float_of_string s = None \<longrightarrow>
          status (enhance_ai_result j cands f) = ''error''
        \<and> result_score (enhance_ai_result j cands f) = Fin 0)"
proof (intro conjI allI impI)
  assume none: "ai_match_score j = None"
  then show c0: "coerced_score j = Inr (Fin 0)"
    by (simp add: coerced_score_def py_float_def)
  show "status (enhance_ai_result j cands f) = ''unmatched''"
    by (simp add: enhance_status [OF c0] status_below_threshold)
next
  fix r assume "ai_match_score j = Some (PNum r)"
  then show "coerced_score j = Inr (Fin r)"
    by (simp add: coerced_score_def py_float_def)
next
  fix s x assume "ai_match_score j = Some (PStr s) \<and> float_of_string s = Some x"
  then show "coerced_score j = Inr x"
    by (simp add: coerced_score_def py_float_def)
next
  fix x assume x: "coerced_score j = Inr x"
  show "result_score (enhance_ai_result j cands f) = x"
    by (rule enhance_score [OF x])
  show "status (enhance_ai_result j cands f) \<noteq> ''error''"
    by (simp add: enhance_status [OF x] status_not_error)
next
  fix s assume "ai_match_score j = Some (PStr s) \<and> float_of_string s = None"
  then obtain e where e: "coerced_score j = Inl e"
    by (auto simp add: coerced_score_def py_float_def)
  show "status (enhance_ai_result j cands f) = ''error''"
    by (rule enhance_error(1) [OF e])
  show "result_score (enhance_ai_result j cands f) = Fin 0"
    by (rule enhance_error(2) [OF e])
qed

lemma float_of_abc: "float_of_string ''abc'' = None" "float_of_string ''85'' = Some (Fin 85)"
  by code_simp+

theorem score_coercion_witness:
  "ai_match_score (judged ''X1'' (PStr ''abc'')) = Some (PStr ''abc'')
   \<and> float_of_string ''abc'' = None
   \<and> status (enhance_ai_result (judged ''X1'' (PStr ''abc'')) five_candidates pipe_features)
       = ''error''
   \<and> result_score (enhance_ai_result (judged ''X1'' (PStr ''abc'')) five_candidates pipe_features)
       = Fin 0
   \<and> float_of_string ''85'' = Some (Fin 85)
   \<and> result_score (enhance_ai_result (judged ''X1'' (PStr ''85'')) five_candidates pipe_features)
       = Fin 85"
  using score_coercion [of "judged ''X1'' (PStr ''abc'')" five_candidates pipe_features]
    score_coercion [of "judged ''X1'' (PStr ''85'')" five_candidates pipe_features]
  by (simp add: judged_fields float_of_abc)

theorem score_coercion_counterexample:
  "status (enhance_ai_result (judged ''X1'' (PStr ''abc'')) five_candidates pipe_features)
     = ''error''
   \<and> status (enhance_ai_result (judged ''X1'' (PNum 0)) five_candidates pipe_features)
     = ''unmatched''"
  by (simp add: enhance_error [OF score_abc] enhance_status [OF score_zero]
      status_below_threshold)

subsection \<open>Alternatives\<close>

text \<open>
  Claim C9, amended: when \<open>float()\<close> accepts the score, \<open>alternative_matches\<close> holds
  the candidates among the first three of the filtered list whose product code differs
  from the judgment's, in rank order, each with its product code, description and
  bucket score: at most three, and three when the list has at least three candidates
  and none of the first three has the judgment's code. (A matched code among the first
  three leaves two alternatives, however many other candidates follow.)
\<close>

theorem alternatives_from_top_three:
  assumes "coerced_score j = Inr score"
  shows "alternative_matches (enhance_ai_result j cands f) =
       Some (map alternative_of
               (filter (\<lambda>item. product_code item \<noteq> Some (get_str (ai_matched_product_code j)))
                  (take 3 cands)))
   \<and> (\<forall>alts. alternative_matches (enhance_ai_result j cands f) = Some alts \<longrightarrow>
         length alts \<le> 3
       \<and> (3 \<le> length cands
            \<and> (\<forall>c \<in> set (take 3 cands).
                  product_code c \<noteq> Some (get_str (ai_matched_product_code j)))
            \<longrightarrow> length alts = 3))"
proof (intro conjI allI impI)
  let ?other = "\<lambda>item. product_code item \<noteq> Some (get_str (ai_matched_product_code j))"
  show eq: "alternative_matches (enhance_ai_result j cands f) =
       Some (map alternative_of (filter ?other (take 3 cands)))"
    by (rule enhance_alternatives [OF assms])
  fix alts assume "alternative_matches (enhance_ai_result j cands f) = Some alts"
  with eq have alts: "alts = map alternative_of (filter ?other (take 3 cands))" by simp
  have "length (filter ?other (take 3 cands)) \<le> length (take 3 cands)"
    by (rule length_filter_le)
  then show "length alts \<le> 3" using alts by simp
  assume "3 \<le> length cands \<and> (\<forall>c \<in> set (take 3 cands). ?other c)"
  then have "filter ?other (take 3 cands) = take 3 cands" and "length (take 3 cands) = 3"
    by simp_all
  then show "length alts = 3" using alts by simp
qed

lemma five_take: "take 3 five_candidates
    = [coded ''A'' (PStr ''5'') 20, coded ''B'' (PStr ''5'') 18, coded ''C'' (PStr ''5'') 15]"
  by (simp add: five_candidates_def)

theorem alternatives_from_top_three_witness:
  "coerced_score (judged ''E'' (PStr ''85'')) = Inr (Fin 85)
   \<and> alternative_matches (enhance_ai_result (judged ''E'' (PStr ''85'')) five_candidates
        pipe_features)
      = Some [alternative_of (coded ''A'' (PStr ''5'') 20),
              alternative_of (coded ''B'' (PStr ''5'') 18),
              alternative_of (coded ''C'' (PStr ''5'') 15)]"
  using alternatives_from_top_three [OF score_85, of "''E''" five_candidates pipe_features]
    score_85 [of "''E''"]
  by (simp add: five_take coded_fields judged_fields get_str_def)

theorem alternatives_from_top_three_counterexample:
  "alternative_matches (enhance_ai_result (judged ''A'' (PStr ''85'')) five_candidates
        pipe_features)
      = Some [alternative_of (coded ''B'' (PStr ''5'') 18),
              alternative_of (coded ''C'' (PStr ''5'') 15)]
   \<and> map product_code five_candidates
      = [Some ''A'', Some ''B'', Some ''C'', Some ''D'', Some ''E'']"
  by (simp add: enhance_alternatives [OF score_85] five_take coded_fields judged_fields
      get_str_def five_candidates_def)

section \<open>The claim about the batch\<close>

lemma process_loop_enumerate:
  "process_loop m stock_data i rfp_items results =
     results @ map (\<lambda>(k, x). batch_entry m stock_data k x) (enumerate i rfp_items)"
  by (induction rfp_items arbitrary: i results) (simp_all add: batch_entry_def)

lemma process_rfp_items_nth:
  assumes "i < length rfp_items"
  shows "process_rfp_items m stock_data rfp_items ! i = batch_entry m stock_data i (rfp_items ! i)"
  using assms by (simp add: process_rfp_items_def process_loop_enumerate nth_enumerate_eq)

lemma length_process_rfp_items:
  "length (process_rfp_items m stock_data rfp_items) = length rfp_items"
  by (simp add: process_rfp_items_def process_loop_enumerate)

text \<open>
  Claim C6: for every list of N line items, \<open>process_rfp_items\<close> returns N results in
  the order of the input; result \<open>i\<close> carries the line number \<open>i + 1\<close> and the item's
  text. An exception raised while an item is processed becomes a result with status
  \<open>error\<close> and the exception's message, so there is one result per item even if every
  item raises. (Line items are strings, and the exceptions are those that
  \<open>except Exception\<close> catches.)
\<close>

theorem batch_one_result_per_item:
  "length (process_rfp_items m stock_data rfp_items) = length rfp_items
   \<and> (\<forall>i < length rfp_items.
         line_number (process_rfp_items m stock_data rfp_items ! i) = Some (i + 1)
       \<and> original_rfp_item (process_rfp_items m stock_data rfp_items ! i) = Some (rfp_items ! i)
       \<and> (\<forall>e. process_single_rfp_item (m i) stock_data (rfp_items ! i) = Inl e \<longrightarrow>
              status (process_rfp_items m stock_data rfp_items ! i) = ''error''
            \<and> error_message (process_rfp_items m stock_data rfp_items ! i) = Some (str_exn e))
       \<and> (\<forall>r. process_single_rfp_item (m i) stock_data (rfp_items ! i) = Inr r \<longrightarrow>
              process_rfp_items m stock_data rfp_items ! i
                = r\<lparr>line_number := Some (i + 1), original_rfp_item := Some (rfp_items ! i)\<rparr>))"
proof (intro conjI allI impI)
  show "length (process_rfp_items m stock_data rfp_items) = length rfp_items"
    by (rule length_process_rfp_items)
next
  fix i assume i: "i < length rfp_items"
  let ?r = "process_rfp_items m stock_data rfp_items ! i"
  have r: "?r = batch_entry m stock_data i (rfp_items ! i)"
    by (rule process_rfp_items_nth [OF i])
  show "line_number ?r = Some (i + 1)"
    by (simp add: r batch_entry_def error_result_def split: sum.splits)
  show "original_rfp_item ?r = Some (rfp_items ! i)"
    by (simp add: r batch_entry_def error_result_def split: sum.splits)
  {
    fix e assume "process_single_rfp_item (m i) stock_data (rfp_items ! i) = Inl e"
    then show "status ?r = ''error''" and "error_message ?r = Some (str_exn e)"
      by (simp_all add: r batch_entry_def error_result_def)
  }
  {
    fix res assume "process_single_rfp_item (m i) stock_data (rfp_items ! i) = Inr res"
    then show "?r = res\<lparr>line_number := Some (i + 1), original_rfp_item := Some (rfp_items ! i)\<rparr>"
      by (simp add: r batch_entry_def)
  }
qed

lemma failing_single:
  "process_single_rfp_item (failing_matcher i) [gasket_item, pipe_item] pipe_text
     = Inl (OtherError ''service unavailable'')"
  by (simp add: process_single_rfp_item_def Let_def pipe_text_features demo_filter
      failing_matcher_def)

theorem batch_one_result_per_item_witness:
  "(1::nat) < length [pipe_text, pipe_text]
   \<and> process_single_rfp_item (failing_matcher 1) [gasket_item, pipe_item]
        ([pipe_text, pipe_text] ! 1) = Inl (OtherError ''service unavailable'')
   \<and> length (process_rfp_items failing_matcher [gasket_item, pipe_item] [pipe_text, pipe_text])
       = length [pipe_text, pipe_text]
   \<and> status (process_rfp_items failing_matcher [gasket_item, pipe_item]
        [pipe_text, pipe_text] ! 1) = ''error''
   \<and> line_number (process_rfp_items failing_matcher [gasket_item, pipe_item]
        [pipe_text, pipe_text] ! 1) = Some 2
   \<and> original_rfp_item (process_rfp_items failing_matcher [gasket_item, pipe_item]
        [pipe_text, pipe_text] ! 1) = Some pipe_text
   \<and> error_message (process_rfp_items failing_matcher [gasket_item, pipe_item]
        [pipe_text, pipe_text] ! 1) = Some ''service unavailable''"
proof -
  have i: "(1::nat) < length [pipe_text, pipe_text]" by simp
  have single: "process_single_rfp_item (failing_matcher 1) [gasket_item, pipe_item]
        ([pipe_text, pipe_text] ! 1) = Inl (OtherError ''service unavailable'')"
    by (simp add: failing_single)
  note inst = batch_one_result_per_item
    [of failing_matcher "[gasket_item, pipe_item]" "[pipe_text, pipe_text]"]
  from inst have len:
    "length (process_rfp_items failing_matcher [gasket_item, pipe_item] [pipe_text, pipe_text])
       = length [pipe_text, pipe_text]"
    by blast
  from inst i have at:
    "line_number (process_rfp_items failing_matcher [gasket_item, pipe_item]
        [pipe_text, pipe_text] ! 1) = Some (1 + 1)"
    "original_rfp_item (process_rfp_items failing_matcher [gasket_item, pipe_item]
        [pipe_text, pipe_text] ! 1) = Some ([pipe_text, pipe_text] ! 1)"
    by blast+
  from inst i single have err:
    "status (process_rfp_items failing_matcher [gasket_item, pipe_item]
        [pipe_text, pipe_text] ! 1) = ''error''"
    "error_message (process_rfp_items failing_matcher [gasket_item, pipe_item]
        [pipe_text, pipe_text] ! 1) = Some (str_exn (OtherError ''service unavailable''))"
    by blast+
  from at have at': "line_number (process_rfp_items failing_matcher [gasket_item, pipe_item]
        [pipe_text, pipe_text] ! 1) = Some 2"
    "original_rfp_item (process_rfp_items failing_matcher [gasket_item, pipe_item]
        [pipe_text, pipe_text] ! 1) = Some pipe_text"
    by simp_all
  from err(2) have msg: "error_message (process_rfp_items failing_matcher [gasket_item, pipe_item]
        [pipe_text, pipe_text] ! 1) = Some ''service unavailable''"
    by simp
  show ?thesis
    by (intro conjI i single len err(1) at' msg)
qed

section \<open>The claim about the summary\<close>

lemma round_tenths_close:
  assumes "0 \<le> x"
  shows "\<bar>of_nat (round_tenths tie x) - x * 10\<bar> \<le> (1 / 2 :: rat)"
proof -
  define t where "t = x * 10"
  define f where "f = nat \<lfloor>t\<rfloor>"
  define d where "d = t - of_nat f"
  have "0 \<le> t" using assms by (simp add: t_def)
  then have "(of_nat f :: rat) = of_int \<lfloor>t\<rfloor>" by (simp add: f_def)
  moreover have "of_int \<lfloor>t\<rfloor> \<le> t" and "t < of_int \<lfloor>t\<rfloor> + 1" by linarith+
  ultimately have d: "0 \<le> d" "d < 1" by (simp_all add: d_def)
  have r: "round_tenths tie x =
      (if d < 1 / 2 then f else if 1 / 2 < d then f + 1 else if tie x then f + 1 else f)"
    using assms by (simp add: round_tenths_def Let_def t_def f_def d_def)
  have "\<bar>of_nat (round_tenths tie x) - t\<bar> \<le> (1 / 2 :: rat)"
  proof (cases "d < 1 / 2")
    case True
    then show ?thesis using d r by (simp add: d_def abs_if)
  next
    case False
    note nl = this
    show ?thesis
    proof (cases "1 / 2 < d")
      case True
      then have "round_tenths tie x = f + 1" using nl r by simp
      then show ?thesis using d True by (simp add: d_def abs_if)
    next
      case False
      then have half: "d = 1 / 2" using nl by simp
      show ?thesis
      proof (cases "tie x")
        case True
        then have "round_tenths tie x = f + 1" using half r by simp
        then show ?thesis using half by (simp add: d_def abs_if)
      next
        case False
        then have "round_tenths tie x = f" using half r by simp
        then show ?thesis using half by (simp add: d_def abs_if)
      qed
    qed
  qed
  then show ?thesis by (simp add: t_def)
qed

lemma count_partition:
  assumes "\<forall>r \<in> set bom_data. known_status r"
  shows "count_status ''matched'' bom_data + count_status ''unmatched'' bom_data
       + count_status ''unavailable'' bom_data + count_status ''error'' bom_data
     = length bom_data"
  using assms
proof (induction bom_data)
  case Nil
  then show ?case by (simp add: count_status_def)
next
  case (Cons r rs)
  then have "known_status r" and "\<forall>r \<in> set rs. known_status r" by simp_all
  with Cons.IH show ?case
    by (auto simp add: count_status_def known_status_def)
qed

lemma shares_total:
  assumes "\<forall>r \<in> set bom_data. known_status r" and "bom_data \<noteq> []"
  shows "(of_nat (count_status ''matched'' bom_data) / of_nat (length bom_data) * 100 * 10 :: rat)
       + of_nat (count_status ''unmatched'' bom_data) / of_nat (length bom_data) * 100 * 10
       + of_nat (count_status ''unavailable'' bom_data) / of_nat (length bom_data) * 100 * 10
       + of_nat (count_status ''error'' bom_data) / of_nat (length bom_data) * 100 * 10
     = 1000"
proof -
  let ?n = "of_nat (length bom_data) :: rat"
  have n: "?n \<noteq> 0" using assms(2) by simp
  have "(of_nat (count_status ''matched'' bom_data) :: rat)
       + of_nat (count_status ''unmatched'' bom_data)
       + of_nat (count_status ''unavailable'' bom_data)
       + of_nat (count_status ''error'' bom_data) = ?n"
    using count_partition [OF assms(1)] by (simp flip: of_nat_add)
  then show ?thesis using n by (simp add: field_simps)
qed

lemma tenths_total:
  assumes "\<forall>r \<in> set bom_data. known_status r" and "bom_data \<noteq> []"
  shows "\<bar>int (status_tenths tie ''matched'' bom_data + status_tenths tie ''unmatched'' bom_data
          + status_tenths tie ''unavailable'' bom_data + status_tenths tie ''error'' bom_data)
        - 1000\<bar> \<le> 2"
proof -
  let ?x = "\<lambda>s. (of_nat (count_status s bom_data) / of_nat (length bom_data) * 100 :: rat)"
  let ?T = "\<lambda>s. status_tenths tie s bom_data"
  have close: "\<bar>of_nat (?T s) - ?x s * 10\<bar> \<le> (1 / 2 :: rat)" for s
    unfolding status_tenths_def by (rule round_tenths_close) simp
  have total: "?x ''matched'' * 10 + ?x ''unmatched'' * 10 + ?x ''unavailable'' * 10
      + ?x ''error'' * 10 = 1000"
    by (rule shares_total [OF assms])
  have "\<bar>(of_nat (?T ''matched'') + of_nat (?T ''unmatched'') + of_nat (?T ''unavailable'')
          + of_nat (?T ''error'') :: rat) - 1000\<bar> \<le> 2"
    using close [of "''matched''"] close [of "''unmatched''"] close [of "''unavailable''"]
      close [of "''error''"] total
    by linarith
  then have "\<bar>(of_int (int (?T ''matched'' + ?T ''unmatched'' + ?T ''unavailable'' + ?T ''error'')
          - 1000) :: rat)\<bar> \<le> of_int 2"
    by simp
  then have "(of_int \<bar>int (?T ''matched'' + ?T ''unmatched'' + ?T ''unavailable'' + ?T ''error'')
          - 1000\<bar> :: rat) \<le> of_int 2"
    by (simp only: of_int_abs)
  then show ?thesis by (simp only: of_int_le_iff)
qed

lemma show_digit: "n < 10 \<Longrightarrow> show_nat n = [digit_char n]"
  by simp

lemma percentage_shape:
  assumes "0 < n"
  shows "percentage_of tie c n =
     show_nat (round_tenths tie (of_nat c / of_nat n * 100) div 10) @ ''.''
       @ [digit_char (round_tenths tie (of_nat c / of_nat n * 100) mod 10)] @ ''%''"
proof -
  have "\<not> (of_nat c / of_nat n * 100 :: rat) < 0"
    by (simp add: not_less)
  then show ?thesis
    using assms by (simp add: percentage_of_def format_1f_def show_digit del: show_nat.simps)
qed

lemma percentage_empty: "percentage_of tie c 0 = ''0.0%''"
  by (simp add: percentage_of_def)

lemma summary_rows:
  "map percentage (generate_bom_summary tie bom_data) =
     [''100.0%'',
      percentage_of tie (count_status ''matched'' bom_data) (length bom_data),
      percentage_of tie (count_status ''unmatched'' bom_data) (length bom_data),
      percentage_of tie (count_status ''unavailable'' bom_data) (length bom_data),
      percentage_of tie (count_status ''error'' bom_data) (length bom_data),
      percentage_of tie (count_confidence ''high'' bom_data) (length bom_data),
      percentage_of tie (count_confidence ''medium'' bom_data) (length bom_data),
      percentage_of tie (count_confidence ''low'' bom_data) (length bom_data)]"
  by (simp add: generate_bom_summary_def Let_def)

lemma summary_length: "length (generate_bom_summary tie bom_data) = 8"
  by (simp add: generate_bom_summary_def Let_def)

lemma summary_row_percentage:
  assumes "k < 8"
  shows "percentage (generate_bom_summary tie bom_data ! k)
     = map percentage (generate_bom_summary tie bom_data) ! k"
  using assms by (simp only: nth_map summary_length)

lemma status_rows:
  assumes "bom_data \<noteq> []"
  shows "percentage (generate_bom_summary tie bom_data ! 1)
          = show_nat (status_tenths tie ''matched'' bom_data div 10) @ ''.''
              @ [digit_char (status_tenths tie ''matched'' bom_data mod 10)] @ ''%''"
    and "percentage (generate_bom_summary tie bom_data ! 2)
          = show_nat (status_tenths tie ''unmatched'' bom_data div 10) @ ''.''
              @ [digit_char (status_tenths tie ''unmatched'' bom_data mod 10)] @ ''%''"
    and "percentage (generate_bom_summary tie bom_data ! 3)
          = show_nat (status_tenths tie ''unavailable'' bom_data div 10) @ ''.''
              @ [digit_char (status_tenths tie ''unavailable'' bom_data mod 10)] @ ''%''"
    and "percentage (generate_bom_summary tie bom_data ! 4)
          = show_nat (status_tenths tie ''error'' bom_data div 10) @ ''.''
              @ [digit_char (status_tenths tie ''error'' bom_data mod 10)] @ ''%''"
proof -
  from assms have pos: "0 < length bom_data" by simp
  have shape: "percentage_of tie (count_status s bom_data) (length bom_data) =
      show_nat (status_tenths tie s bom_data div 10) @ ''.''
        @ [digit_char (status_tenths tie s bom_data mod 10)] @ ''%''" for s
    unfolding status_tenths_def by (rule percentage_shape [OF pos])
  show "percentage (generate_bom_summary tie bom_data ! 1)
          = show_nat (status_tenths tie ''matched'' bom_data div 10) @ ''.''
              @ [digit_char (status_tenths tie ''matched'' bom_data mod 10)] @ ''%''"
    by (subst summary_row_percentage, simp) (simp only: summary_rows nth_Cons_numeral
        nth_Cons_0 One_nat_def nth_Cons_Suc shape)
  show "percentage (generate_bom_summary tie bom_data ! 2)
          = show_nat (status_tenths tie ''unmatched'' bom_data div 10) @ ''.''
              @ [digit_char (status_tenths tie ''unmatched'' bom_data mod 10)] @ ''%''"
    by (subst summary_row_percentage, simp) (simp add: summary_rows shape del: show_nat.simps)
  show "percentage (generate_bom_summary tie bom_data ! 3)
          = show_nat (status_tenths tie ''unavailable'' bom_data div 10) @ ''.''
              @ [digit_char (status_tenths tie ''unavailable'' bom_data mod 10)] @ ''%''"
    by (subst summary_row_percentage, simp) (simp add: summary_rows shape del: show_nat.simps)
  show "percentage (generate_bom_summary tie bom_data ! 4)
          = show_nat (status_tenths tie ''error'' bom_data div 10) @ ''.''
              @ [digit_char (status_tenths tie ''error'' bom_data mod 10)] @ ''%''"
    by (subst summary_row_percentage, simp) (simp add: summary_rows shape del: show_nat.simps)
qed

lemma summary_empty:
  "map percentage (generate_bom_summary tie [])
     = [''100.0%'', ''0.0%'', ''0.0%'', ''0.0%'', ''0.0%'', ''0.0%'', ''0.0%'', ''0.0%'']"
  by (simp only: summary_rows list.size percentage_empty)

text \<open>
  Claim C7, amended: for every result collection the percentage of each of the four
  statuses is printed with one decimal place; when the total is greater than 0 and
  every result has one of the four statuses, the four printed values sum to 100.0 up
  to rounding (within 0.2); when the total is 0 every percentage of a status or of a
  confidence tier is \<open>0.0%\<close>, while the row \<open>Total Items\<close> reports \<open>100.0%\<close> always.
\<close>

theorem summary_percentages:
  "(bom_data = [] \<longrightarrow>
      map percentage (generate_bom_summary tie bom_data)
        = [''100.0%'', ''0.0%'', ''0.0%'', ''0.0%'', ''0.0%'', ''0.0%'', ''0.0%'', ''0.0%''])
   \<and> (bom_data \<noteq> [] \<longrightarrow>
        percentage (generate_bom_summary tie bom_data ! 1)
          = show_nat (status_tenths tie ''matched'' bom_data div 10) @ ''.''
              @ [digit_char (status_tenths tie ''matched'' bom_data mod 10)] @ ''%''
      \<and> percentage (generate_bom_summary tie bom_data ! 2)
          = show_nat (status_tenths tie ''unmatched'' bom_data div 10) @ ''.''
              @ [digit_char (status_tenths tie ''unmatched'' bom_data mod 10)] @ ''%''
      \<and> percentage (generate_bom_summary tie bom_data ! 3)
          = show_nat (status_tenths tie ''unavailable'' bom_data div 10) @ ''.''
              @ [digit_char (status_tenths tie ''unavailable'' bom_data mod 10)] @ ''%''
      \<and> percentage (generate_bom_summary tie bom_data ! 4)
          = show_nat (status_tenths tie ''error'' bom_data div 10) @ ''.''
              @ [digit_char (status_tenths tie ''error'' bom_data mod 10)] @ ''%''
      \<and> ((\<forall>r \<in> set bom_data. known_status r) \<longrightarrow>
           \<bar>int (status_tenths tie ''matched'' bom_data + status_tenths tie ''unmatched'' bom_data
                 + status_tenths tie ''unavailable'' bom_data
                 + status_tenths tie ''error'' bom_data) - 1000\<bar> \<le> 2))"
proof (intro conjI impI)
  assume "bom_data = []"
  then show "map percentage (generate_bom_summary tie bom_data)
        = [''100.0%'', ''0.0%'', ''0.0%'', ''0.0%'', ''0.0%'', ''0.0%'', ''0.0%'', ''0.0%'']"
    by (simp only: summary_empty)
next
  assume ne: "bom_data \<noteq> []"
  show "percentage (generate_bom_summary tie bom_data ! 1)
          = show_nat (status_tenths tie ''matched'' bom_data div 10) @ ''.''
              @ [digit_char (status_tenths tie ''matched'' bom_data mod 10)] @ ''%''"
    by (rule status_rows(1) [OF ne])
  show "percentage (generate_bom_summary tie bom_data ! 2)
          = show_nat (status_tenths tie ''unmatched'' bom_data div 10) @ ''.''
              @ [digit_char (status_tenths tie ''unmatched'' bom_data mod 10)] @ ''%''"
    by (rule status_rows(2) [OF ne])
  show "percentage (generate_bom_summary tie bom_data ! 3)
          = show_nat (status_tenths tie ''unavailable'' bom_data div 10) @ ''.''
              @ [digit_char (status_tenths tie ''unavailable'' bom_data mod 10)] @ ''%''"
    by (rule status_rows(3) [OF ne])
  show "percentage (generate_bom_summary tie bom_data ! 4)
          = show_nat (status_tenths tie ''error'' bom_data div 10) @ ''.''
              @ [digit_char (status_tenths tie ''error'' bom_data mod 10)] @ ''%''"
    by (rule status_rows(4) [OF ne])
  assume "\<forall>r \<in> set bom_data. known_status r"
  then show "\<bar>int (status_tenths tie ''matched'' bom_data + status_tenths tie ''unmatched'' bom_data
                 + status_tenths tie ''unavailable'' bom_data
                 + status_tenths tie ''error'' bom_data) - 1000\<bar> \<le> 2"
    using ne by (rule tenths_total)
qed

lemma three_counts:
  "count_status ''matched'' [result_with ''matched'', result_with ''unmatched'', result_with ''error''] = 1"
  "count_status ''unmatched'' [result_with ''matched'', result_with ''unmatched'', result_with ''error''] = 1"
  "count_status ''unavailable'' [result_with ''matched'', result_with ''unmatched'', result_with ''error''] = 0"
  "count_status ''error'' [result_with ''matched'', result_with ''unmatched'', result_with ''error''] = 1"
  by (simp_all add: count_status_def result_with_def)

lemma third_tenths: "round_tenths tie (1 / 3 * 100) = 333"
proof -
  have "\<lfloor>(1000 / 3 :: rat)\<rfloor> = 333" by (simp add: floor_eq_iff)
  then show ?thesis by (simp add: round_tenths_def Let_def)
qed

lemma zero_tenths: "round_tenths tie 0 = 0"
  by (simp add: round_tenths_def Let_def)

lemma three_tenths:
  "status_tenths tie ''matched'' three_results = 333"
  "status_tenths tie ''unmatched'' three_results = 333"
  "status_tenths tie ''unavailable'' three_results = 0"
  "status_tenths tie ''error'' three_results = 333"
  using third_tenths [of tie] zero_tenths [of tie]
  by (simp_all add: status_tenths_def three_results_def three_counts)

lemma shown_digits:
  "show_nat 33 = ''33''" "show_nat 0 = ''0''" "digit_char 3 = CHR ''3''" "digit_char 0 = CHR ''0''"
  by (simp_all add: digit_char_def)

lemma three_known: "\<forall>r \<in> set three_results. known_status r"
  by (simp add: three_results_def known_status_def result_with_def)

theorem summary_percentages_witness:
  "three_results \<noteq> []
   \<and> known_status (result_with ''matched'') \<and> known_status (result_with ''unmatched'')
   \<and> known_status (result_with ''error'')
   \<and> percentage (generate_bom_summary ties_down three_results ! 1) = ''33.3%''
   \<and> percentage (generate_bom_summary ties_down three_results ! 2) = ''33.3%''
   \<and> percentage (generate_bom_summary ties_down three_results ! 3) = ''0.0%''
   \<and> percentage (generate_bom_summary ties_down three_results ! 4) = ''33.3%''
   \<and> \<bar>int (status_tenths ties_down ''matched'' three_results
           + status_tenths ties_down ''unmatched'' three_results
           + status_tenths ties_down ''unavailable'' three_results
           + status_tenths ties_down ''error'' three_results) - 1000\<bar> \<le> 2"
proof -
  have ne: "three_results \<noteq> []" by (simp add: three_results_def)
  have known: "known_status (result_with ''matched'')" "known_status (result_with ''unmatched'')"
    "known_status (result_with ''error'')"
    using three_known by (simp_all add: three_results_def)
  note inst = summary_percentages [of three_results ties_down]
  from inst ne have rows:
    "percentage (generate_bom_summary ties_down three_results ! 1)
       = show_nat (status_tenths ties_down ''matched'' three_results div 10) @ ''.''
           @ [digit_char (status_tenths ties_down ''matched'' three_results mod 10)] @ ''%''"
    "percentage (generate_bom_summary ties_down three_results ! 2)
       = show_nat (status_tenths ties_down ''unmatched'' three_results div 10) @ ''.''
           @ [digit_char (status_tenths ties_down ''unmatched'' three_results mod 10)] @ ''%''"
    "percentage (generate_bom_summary ties_down three_results ! 3)
       = show_nat (status_tenths ties_down ''unavailable'' three_results div 10) @ ''.''
           @ [digit_char (status_tenths ties_down ''unavailable'' three_results mod 10)] @ ''%''"
    "percentage (generate_bom_summary ties_down three_results ! 4)
       = show_nat (status_tenths ties_down ''error'' three_results div 10) @ ''.''
           @ [digit_char (status_tenths ties_down ''error'' three_results mod 10)] @ ''%''"
    by blast+
  from inst ne three_known have total:
    "\<bar>int (status_tenths ties_down ''matched'' three_results
           + status_tenths ties_down ''unmatched'' three_results
           + status_tenths ties_down ''unavailable'' three_results
           + status_tenths ties_down ''error'' three_results) - 1000\<bar> \<le> 2"
    by blast
  have shown: "show_nat (333 div 10) = ''33''" "digit_char (333 mod 10) = CHR ''3''"
    "show_nat (0 div 10) = ''0''" "digit_char (0 mod 10) = CHR ''0''"
    using shown_digits by simp_all
  have r1: "percentage (generate_bom_summary ties_down three_results ! 1) = ''33.3%''"
    by (simp only: rows three_tenths shown) simp
  have r2: "percentage (generate_bom_summary ties_down three_results ! 2) = ''33.3%''"
    by (simp only: rows three_tenths shown) simp
  have r3: "percentage (generate_bom_summary ties_down three_results ! 3) = ''0.0%''"
    by (simp only: rows three_tenths shown) simp
  have r4: "percentage (generate_bom_summary ties_down three_results ! 4) = ''33.3%''"
    by (simp only: rows three_tenths shown) simp
  show ?thesis
    by (intro conjI ne known r1 r2 r3 r4 total)
qed

theorem summary_percentages_counterexample:
  "length ([] :: match_result list) = 0
   \<and> percentage (hd (generate_bom_summary ties_down [])) = ''100.0%''
   \<and> percentage (hd (generate_bom_summary ties_down [])) \<noteq> ''0.0%''"
  by (simp add: generate_bom_summary_def Let_def)

end
